theory Spec2Isabelle
  imports Main "HOL-Library.Word"
begin

section \<open>Values, errors and effects\<close>

text \<open>
  The client of \<^verbatim>\<open>src/src/index.ts\<close> is embedded function by function. Values that
  cross the wire are JavaScript values; an absent property reads as \<open>Undefined\<close>.
  Numbers are kept as integers: no operation of the client computes with them.
\<close>

type_synonym bytes = "8 word list"

datatype jsval =
    Undefined
  | Null
  | Bool bool
  | Num int
  | Str string
  | Arr "jsval list"
  | Obj "(string \<times> jsval) list"

text \<open>
  Every \<^verbatim>\<open>throw\<close> of the source is a constructor of \<open>exn\<close>. \<open>TypeError\<close> is
  the runtime's own error (reading a property of \<^verbatim>\<open>undefined\<close>, calling a method
  that a value does not have, passing \<^verbatim>\<open>undefined\<close> where a string is required);
  \<open>LibraryError\<close> is whatever a library call rejects with.
\<close>

datatype exn =
    TypeError
  | LibraryError string
  | HttpError nat
  | UnexpectedBatchResponse
  | UnexpectedProverBatchResponse
  | AttestationThresholdNotMet int
  | NotEd25519Key
  | KeyFetchFailed string
  | ProverUrlNotSet
  | AccountNotFound
  | StorageValueNotFound
  | RpcError jsval jsval jsval

text \<open>
  The observable actions of a call, in the order they happen: a POST of a JSON-RPC
  request to a URL, the GET of an identity's key, the parsing of a fetched key, the
  call of \<^verbatim>\<open>verifyAttestation\<close> for the attestation at a position (the only place
  from which signatures are checked), and the call of \<^verbatim>\<open>verifyStatelessProof\<close>.
\<close>

datatype event =
    HttpPost string string "jsval list"
  | KeyFetch string
  | KeyParse string
  | AttestationCheck nat
  | StatelessProofCall

type_synonym 'a io = "event list \<times> (exn + 'a)"

definition io_return :: "'a \<Rightarrow> 'a io" where
  "io_return x = ([], Inr x)"

definition io_throw :: "exn \<Rightarrow> 'a io" where
  "io_throw e = ([], Inl e)"

definition io_lift :: "exn + 'a \<Rightarrow> 'a io" where
  "io_lift r = ([], r)"

definition io_bind :: "'a io \<Rightarrow> ('a \<Rightarrow> 'b io) \<Rightarrow> 'b io" where
  "io_bind m f =
     (case m of
        (tr, Inl e) \<Rightarrow> (tr, Inl e)
      | (tr, Inr x) \<Rightarrow> (case f x of (tr', r) \<Rightarrow> (tr @ tr', r)))"

definition exn_bind :: "exn + 'a \<Rightarrow> ('a \<Rightarrow> exn + 'b) \<Rightarrow> exn + 'b" where
  "exn_bind m f = (case m of Inl e \<Rightarrow> Inl e | Inr x \<Rightarrow> f x)"

text \<open>\<^verbatim>\<open>try { body } catch (error) { handler }\<close> around a computation without effects.\<close>

definition try_catch :: "exn + 'a \<Rightarrow> (exn \<Rightarrow> exn + 'a) \<Rightarrow> exn + 'a" where
  "try_catch body handler = (case body of Inl e \<Rightarrow> handler e | Inr x \<Rightarrow> Inr x)"

text \<open>\<^verbatim>\<open>xs[i]\<close> of an array: \<^verbatim>\<open>undefined\<close> (here \<open>None\<close>) out of range.\<close>

definition nth_opt :: "'a list \<Rightarrow> nat \<Rightarrow> 'a option" where
  "nth_opt xs i = (if i < length xs then Some (xs ! i) else None)"

text \<open>
  \<^verbatim>\<open>xs.every((x, index) => f(x, index))\<close> with a callback that may throw: it stops at
  the first \<^verbatim>\<open>false\<close> and at the first exception.
\<close>

fun every_from :: "nat \<Rightarrow> ('a \<Rightarrow> nat \<Rightarrow> exn + bool) \<Rightarrow> 'a list \<Rightarrow> exn + bool" where
  "every_from i f [] = Inr True"
| "every_from i f (x # xs) =
     (case f x i of
        Inl e \<Rightarrow> Inl e
      | Inr b \<Rightarrow> if b then every_from (Suc i) f xs else Inr False)"

definition every :: "('a \<Rightarrow> nat \<Rightarrow> exn + bool) \<Rightarrow> 'a list \<Rightarrow> exn + bool" where
  "every f xs = every_from 0 f xs"

section \<open>The world outside the client\<close>

text \<open>
  What the network and the libraries answer is a parameter of every function below.
  \<open>http_post url method params\<close> is what \<^verbatim>\<open>fetch\<close> with \<^verbatim>\<open>response.json()\<close>
  gives for a JSON-RPC request, \<open>http_get url\<close> what \<^verbatim>\<open>fetch\<close> with
  \<^verbatim>\<open>response.text()\<close> gives. The library calls are \<^verbatim>\<open>sshpk.parseKey(s, "ssh")\<close>,
  \<^verbatim>\<open>Buffer.from(s, "hex")\<close>, \<^verbatim>\<open>nacl.sign.detached.verify\<close>,
  \<^verbatim>\<open>JSON.stringify\<close>, the SHA-256 hex digest, and the trie of
  \<^verbatim>\<open>@ethereumjs/trie\<close>. Each of them may throw.
\<close>

record attestation =
  signature :: "string option"
  signatures :: "string list option"
  signatureFormat :: string
  hashAlgo :: string
  msg :: "string option"
  msgs :: "string list option"
  identity :: "string option"

record attested_response =
  result :: jsval
  error :: jsval
  attestations :: "attestation list"

datatype json_reply = Single attested_response | Batch "attested_response list"

datatype post_outcome =
    PostRejected string
  | PostReply nat "json_reply option"

datatype get_outcome =
    GetRejected string
  | GetReply nat "string option"

record ssh_key =
  key_type :: string
  part_A_data :: bytes

record trie =
  trie_root :: bytes
  trie_proofs :: "bytes list list"

record env =
  http_post :: "string \<Rightarrow> string \<Rightarrow> jsval list \<Rightarrow> post_outcome"
  http_get :: "string \<Rightarrow> get_outcome"
  sshpk_parseKey :: "string \<Rightarrow> exn + ssh_key"
  Buffer_from_hex :: "string \<Rightarrow> exn + bytes"
  nacl_verify :: "bytes \<Rightarrow> bytes \<Rightarrow> bytes \<Rightarrow> exn + bool"
  JSON_stringify :: "jsval \<Rightarrow> string"
  sha256_hex :: "string \<Rightarrow> string"
  parse_hex_pairs :: "string \<Rightarrow> bytes"
  Trie_updateFromProof :: "trie \<Rightarrow> bytes list \<Rightarrow> exn + trie"
  Trie_get :: "trie \<Rightarrow> bytes \<Rightarrow> bool \<Rightarrow> exn + bytes option"

section \<open>The client\<close>

record client =
  rpcUrl :: string
  identities :: "string list"
  minimumRequiredAttestations :: int
  proverUrl :: "string option"

text \<open>
  The constructor: an argument that is not supplied (\<open>None\<close>) takes its default, 1 for the
  threshold and \<^verbatim>\<open>null\<close> for the prover URL. No argument is validated.
\<close>

definition StatelessRpcClient ::
  "string \<Rightarrow> string list \<Rightarrow> int option \<Rightarrow> string option \<Rightarrow> client" where
  "StatelessRpcClient url ids minimumRequired prover =
     \<lparr> rpcUrl = url,
       identities = ids,
       minimumRequiredAttestations = (case minimumRequired of None \<Rightarrow> 1 | Some t \<Rightarrow> t),
       proverUrl = prover \<rparr>"

subsection \<open>verifySignature\<close>

text \<open>
  \<^verbatim>\<open>attestation.signatures[index]\<close> is \<^verbatim>\<open>undefined\<close> when the attestation has
  fewer signatures than messages, and \<^verbatim>\<open>Buffer.from(undefined, "hex")\<close> throws a
  TypeError. The argument \<open>hashAlgo\<close> is not used by the source either, and the
  \<^verbatim>\<open>console.error\<close> of the \<^verbatim>\<open>catch\<close> block is not an action the model records.
\<close>

definition Buffer_from :: "env \<Rightarrow> string option \<Rightarrow> exn + bytes" where
  "Buffer_from w s = (case s of None \<Rightarrow> Inl TypeError | Some x \<Rightarrow> Buffer_from_hex w x)"

definition verifySignature_try :: "env \<Rightarrow> string \<Rightarrow> string option \<Rightarrow> bytes \<Rightarrow> exn + bool" where
  "verifySignature_try w msgHash sig publicKey =
     exn_bind (Buffer_from w sig) (\<lambda>signatureBytes.
     exn_bind (Buffer_from w (Some msgHash)) (\<lambda>msgHashBytes.
       nacl_verify w msgHashBytes signatureBytes publicKey))"

definition verifySignature ::
  "env \<Rightarrow> string \<Rightarrow> string option \<Rightarrow> bytes \<Rightarrow> string \<Rightarrow> exn + bool" where
  "verifySignature w msgHash sig publicKey algo =
     try_catch (verifySignature_try w msgHash sig publicKey) (\<lambda>error. Inr False)"

subsection \<open>verifyAttestation\<close>

text \<open>
  Truthiness as the source tests it: an array is truthy when present, also when empty
  (hence the separate test of \<^verbatim>\<open>msgs.length > 0\<close>); a string is truthy when
  present and not empty.
\<close>

definition truthy_str :: "string option \<Rightarrow> bool" where
  "truthy_str s = (case s of None \<Rightarrow> False | Some x \<Rightarrow> x \<noteq> [])"

definition batch_mode :: "attestation \<Rightarrow> bool" where
  "batch_mode a = (msgs a \<noteq> None \<and> length (the (msgs a)) > 0 \<and> signatures a \<noteq> None)"

definition single_mode :: "attestation \<Rightarrow> bool" where
  "single_mode a = (\<not> batch_mode a \<and> truthy_str (msg a) \<and> truthy_str (signature a))"

definition verifyAttestation :: "env \<Rightarrow> attestation \<Rightarrow> bytes \<Rightarrow> string list \<Rightarrow> exn + bool" where
  "verifyAttestation w a publicKey contentHashes =
     (if batch_mode a then
        (let isSubset = list_all (\<lambda>hash. hash \<in> set (the (msgs a))) contentHashes in
         if \<not> isSubset then Inr False
         else
           every (\<lambda>m index.
               if signatures a = None then Inr False
               else verifySignature w m (nth_opt (the (signatures a)) index) publicKey (hashAlgo a))
             (the (msgs a)))
      else if single_mode a then
        (let isHashInResult = the (msg a) \<in> set contentHashes in
         if isHashInResult
         then verifySignature w (the (msg a)) (signature a) publicKey (hashAlgo a)
         else Inr False)
      else Inr False)"

subsection \<open>hashContent\<close>

text \<open>
  \<^verbatim>\<open>JSON.stringify(undefined)\<close> is \<^verbatim>\<open>undefined\<close>, and the hash's
  \<^verbatim>\<open>update(undefined)\<close> throws a TypeError.
\<close>

definition hashItem :: "env \<Rightarrow> jsval \<Rightarrow> exn + string" where
  "hashItem w v = (if v = Undefined then Inl TypeError else Inr (sha256_hex w (JSON_stringify w v)))"

fun map_exn :: "('a \<Rightarrow> exn + 'b) \<Rightarrow> 'a list \<Rightarrow> exn + 'b list" where
  "map_exn f [] = Inr []"
| "map_exn f (x # xs) =
     (case f x of
        Inl e \<Rightarrow> Inl e
      | Inr y \<Rightarrow> (case map_exn f xs of Inl e \<Rightarrow> Inl e | Inr ys \<Rightarrow> Inr (y # ys)))"

definition hashContent :: "env \<Rightarrow> jsval \<Rightarrow> exn + string list" where
  "hashContent w content =
     (case content of
        Arr items \<Rightarrow> map_exn (hashItem w) items
      | _ \<Rightarrow> exn_bind (hashItem w content) (\<lambda>h. Inr [h]))"

subsection \<open>publicKeyFromIdentity\<close>

definition publicKeyFromIdentity :: "env \<Rightarrow> string \<Rightarrow> string io" where
  "publicKeyFromIdentity w ident =
     (let url = ident @ ''/.well-known/stateless-key'' in
      ([KeyFetch url],
       case http_get w url of
         GetRejected why \<Rightarrow> Inl (LibraryError why)
       | GetReply status body \<Rightarrow>
           if status \<noteq> 200 then Inl (KeyFetchFailed url)
           else (case body of None \<Rightarrow> Inl (LibraryError ''text'') | Some t \<Rightarrow> Inr t)))"

subsection \<open>verifyAttestations\<close>

text \<open>\<^verbatim>\<open>a ?? b\<close>: \<open>b\<close> when \<open>a\<close> is \<^verbatim>\<open>null\<close> or \<^verbatim>\<open>undefined\<close>.\<close>

definition nullish :: "jsval \<Rightarrow> jsval \<Rightarrow> jsval" where
  "nullish a b = (if a = Undefined \<or> a = Null then b else a)"

text \<open>\<^verbatim>\<open>this.identities.includes(x)\<close>, where \<open>x\<close> may be \<^verbatim>\<open>undefined\<close>.\<close>

definition includes_identity :: "string list \<Rightarrow> string option \<Rightarrow> bool" where
  "includes_identity ids x = (case x of None \<Rightarrow> False | Some s \<Rightarrow> s \<in> set ids)"

text \<open>
  The assignment \<^verbatim>\<open>attestation.identity = this.identities[i]\<close>, made when the
  identity is missing or empty.
\<close>

definition assign_identity :: "string list \<Rightarrow> nat \<Rightarrow> attestation \<Rightarrow> attestation" where
  "assign_identity ids i a =
     (if \<not> truthy_str (identity a) then a\<lparr>identity := nth_opt ids i\<rparr> else a)"

text \<open>
  The \<^verbatim>\<open>try\<close> around the key fetch: its \<^verbatim>\<open>catch\<close> is \<^verbatim>\<open>continue\<close>, here the
  value \<open>None\<close>.
\<close>

definition fetch_key_or_continue :: "env \<Rightarrow> string \<Rightarrow> string option io" where
  "fetch_key_or_continue w ident =
     (case publicKeyFromIdentity w ident of
        (tr, Inl e) \<Rightarrow> (tr, Inr None)
      | (tr, Inr sshPublicKey) \<Rightarrow> (tr, Inr (Some sshPublicKey)))"

text \<open>
  One turn of the loop over \<^verbatim>\<open>response.attestations.entries()\<close>. The result is the
  attestation pushed on \<^verbatim>\<open>validAttestations\<close>, or \<open>None\<close> when nothing is pushed.
\<close>

definition loop_body :: "env \<Rightarrow> string list \<Rightarrow> string list \<Rightarrow> nat \<Rightarrow> attestation \<Rightarrow> attestation option io" where
  "loop_body w ids contentHashes i a0 =
     (let a = assign_identity ids i a0 in
      if \<not> includes_identity ids (identity a) then io_return None
      else
        io_bind (fetch_key_or_continue w (the (identity a))) (\<lambda>fetched.
          case fetched of
            None \<Rightarrow> io_return None
          | Some sshPublicKey \<Rightarrow>
              io_bind ([KeyParse sshPublicKey], sshpk_parseKey w sshPublicKey) (\<lambda>key.
                if key_type key \<noteq> ''ed25519'' then io_throw NotEd25519Key
                else
                  io_bind ([AttestationCheck i],
                      verifyAttestation w a (part_A_data key) contentHashes) (\<lambda>isValid.
                    io_return (if isValid then Some a else None)))))"

fun attestation_loop ::
  "env \<Rightarrow> string list \<Rightarrow> string list \<Rightarrow> nat \<Rightarrow> attestation list \<Rightarrow> attestation list \<Rightarrow> attestation list io" where
  "attestation_loop w ids contentHashes i [] validAttestations = io_return validAttestations"
| "attestation_loop w ids contentHashes i (a # rest) validAttestations =
     io_bind (loop_body w ids contentHashes i a) (\<lambda>pushed.
       attestation_loop w ids contentHashes (Suc i) rest
         (case pushed of None \<Rightarrow> validAttestations | Some a' \<Rightarrow> validAttestations @ [a']))"

definition verifyAttestations :: "env \<Rightarrow> client \<Rightarrow> attested_response \<Rightarrow> bool io" where
  "verifyAttestations w c response =
     (let content = nullish (result response) (error response) in
      io_bind (io_lift (hashContent w content)) (\<lambda>contentHashes.
      io_bind (attestation_loop w (identities c) contentHashes 0 (attestations response) [])
        (\<lambda>validAttestations.
          io_return (int (length validAttestations) \<ge> minimumRequiredAttestations c))))"

subsection \<open>Reading JavaScript values\<close>

text \<open>
  \<open>truthy\<close> is the test of \<^verbatim>\<open>if (v)\<close>. \<open>js_member v name\<close> reads the property
  \<open>name\<close> of a value that is neither \<^verbatim>\<open>null\<close> nor \<^verbatim>\<open>undefined\<close>; the source reads
  properties by fixed names only, none of which is an index, so arrays and strings
  answer \<^verbatim>\<open>length\<close> and nothing else. \<open>js_prop\<close> is the same read of any value, a
  TypeError on \<^verbatim>\<open>null\<close> and \<^verbatim>\<open>undefined\<close>; \<open>js_index v i\<close> is \<^verbatim>\<open>v[i]\<close> and
  \<open>js_map v f\<close> is \<^verbatim>\<open>v.map(f)\<close>, a TypeError unless \<open>v\<close> is an array.
\<close>

fun truthy :: "jsval \<Rightarrow> bool" where
  "truthy Undefined = False"
| "truthy Null = False"
| "truthy (Bool b) = b"
| "truthy (Num n) = (n \<noteq> 0)"
| "truthy (Str s) = (s \<noteq> [])"
| "truthy (Arr xs) = True"
| "truthy (Obj kvs) = True"

definition lookup_key :: "(string \<times> jsval) list \<Rightarrow> string \<Rightarrow> jsval" where
  "lookup_key kvs k = (case map_of kvs k of None \<Rightarrow> Undefined | Some v \<Rightarrow> v)"

fun js_member :: "jsval \<Rightarrow> string \<Rightarrow> jsval" where
  "js_member (Obj kvs) k = lookup_key kvs k"
| "js_member (Arr xs) k = (if k = ''length'' then Num (int (length xs)) else Undefined)"
| "js_member (Str s) k = (if k = ''length'' then Num (int (length s)) else Undefined)"
| "js_member v k = Undefined"

definition js_prop :: "jsval \<Rightarrow> string \<Rightarrow> exn + jsval" where
  "js_prop v k = (if v = Undefined \<or> v = Null then Inl TypeError else Inr (js_member v k))"

definition digit_char :: "nat \<Rightarrow> char" where
  "digit_char d = char_of (48 + d)"

fun decimal :: "nat \<Rightarrow> string" where
  "decimal n = (if n < 10 then [digit_char n] else decimal (n div 10) @ [digit_char (n mod 10)])"

definition js_index :: "jsval \<Rightarrow> nat \<Rightarrow> exn + jsval" where
  "js_index v i =
     (case v of
        Undefined \<Rightarrow> Inl TypeError
      | Null \<Rightarrow> Inl TypeError
      | Arr xs \<Rightarrow> Inr (if i < length xs then xs ! i else Undefined)
      | Str s \<Rightarrow> Inr (if i < length s then Str [s ! i] else Undefined)
      | Obj kvs \<Rightarrow> Inr (lookup_key kvs (decimal i))
      | _ \<Rightarrow> Inr Undefined)"

definition js_map :: "jsval \<Rightarrow> (jsval \<Rightarrow> exn + 'a) \<Rightarrow> exn + 'a list" where
  "js_map v f = (case v of Arr xs \<Rightarrow> map_exn f xs | _ \<Rightarrow> Inl TypeError)"

subsection \<open>fromHexString and extractDefinedProperties\<close>

text \<open>
  \<open>parse_hex_pairs\<close> stands for the chain of built-ins
  \<^verbatim>\<open>Uint8Array.from((s.match(/.{1,2}/g) || []).map((byte) => parseInt(byte, 16)))\<close>.
  A value that is not a string has no \<^verbatim>\<open>startsWith\<close>: a TypeError.
\<close>

definition fromHexString :: "env \<Rightarrow> jsval \<Rightarrow> exn + bytes" where
  "fromHexString w hexString =
     (case hexString of
        Str s \<Rightarrow> Inr (parse_hex_pairs w (if take 2 s = ''0x'' then drop 2 s else s))
      | _ \<Rightarrow> Inl TypeError)"

text \<open>\<^verbatim>\<open>Object.entries(obj)\<close>: the own enumerable properties, a TypeError on \<^verbatim>\<open>null\<close>
  and \<^verbatim>\<open>undefined\<close>.\<close>

definition Object_entries :: "jsval \<Rightarrow> exn + (string \<times> jsval) list" where
  "Object_entries v =
     (case v of
        Undefined \<Rightarrow> Inl TypeError
      | Null \<Rightarrow> Inl TypeError
      | Obj kvs \<Rightarrow> Inr kvs
      | Arr xs \<Rightarrow> Inr (map (\<lambda>i. (decimal i, xs ! i)) [0..<length xs])
      | Str s \<Rightarrow> Inr (map (\<lambda>i. (decimal i, Str [s ! i])) [0..<length s])
      | _ \<Rightarrow> Inr [])"

definition extractDefinedProperties :: "jsval \<Rightarrow> exn + jsval" where
  "extractDefinedProperties obj =
     exn_bind (Object_entries obj) (\<lambda>entries.
       Inr (Obj (filter (\<lambda>(k, v). v \<noteq> Undefined) entries)))"

subsection \<open>sendJsonRpcRequest and sendToProver\<close>

definition response_ok :: "nat \<Rightarrow> bool" where
  "response_ok status = (200 \<le> status \<and> status \<le> 299)"

text \<open>
  The request's \<^verbatim>\<open>id\<close> is the clock's reading and only correlates request and
  response; it is left out.
\<close>

definition sendJsonRpcRequest :: "env \<Rightarrow> string \<Rightarrow> string \<Rightarrow> jsval list \<Rightarrow> json_reply io" where
  "sendJsonRpcRequest w url method params =
     ([HttpPost url method params],
      case http_post w url method params of
        PostRejected why \<Rightarrow> Inl (LibraryError why)
      | PostReply status body \<Rightarrow>
          if \<not> response_ok status then Inl (HttpError status)
          else (case body of None \<Rightarrow> Inl (LibraryError ''json'') | Some r \<Rightarrow> Inr r))"

definition rpc_error_of :: "jsval \<Rightarrow> exn" where
  "rpc_error_of e = RpcError (js_member e ''message'') (js_member e ''code'') (js_member e ''data'')"

definition sendToProver :: "env \<Rightarrow> client \<Rightarrow> string \<Rightarrow> jsval list \<Rightarrow> jsval io" where
  "sendToProver w c method params =
     (if \<not> truthy_str (proverUrl c) then io_throw ProverUrlNotSet
      else
        io_bind (sendJsonRpcRequest w (the (proverUrl c)) method params) (\<lambda>response.
          case response of
            Batch rs \<Rightarrow> io_throw UnexpectedProverBatchResponse
          | Single r \<Rightarrow>
              if truthy (error r) then io_throw (rpc_error_of (error r))
              else io_return (result r)))"

subsection \<open>verifyStatelessProof\<close>

text \<open>
  The trie object is its root and the proofs it has absorbed; what
  \<^verbatim>\<open>updateFromProof\<close> and \<^verbatim>\<open>get\<close> answer is the library's. One turn of the loop
  over the storage keys returns the updated storage trie.
\<close>

definition storage_step :: "env \<Rightarrow> jsval \<Rightarrow> jsval \<Rightarrow> nat \<Rightarrow> trie \<Rightarrow> exn + trie" where
  "storage_step w storageProof storageKeys i storageTrie =
     exn_bind (js_index storageProof i) (\<lambda>entry.
     exn_bind (js_prop entry ''proof'') (\<lambda>proofNodes.
     exn_bind (js_map proofNodes (fromHexString w)) (\<lambda>proofBuffer.
     exn_bind (Trie_updateFromProof w storageTrie proofBuffer) (\<lambda>storageTrie'.
     exn_bind (js_index storageKeys i) (\<lambda>key.
     exn_bind (fromHexString w key) (\<lambda>keyBytes.
     exn_bind (Trie_get w storageTrie' keyBytes False) (\<lambda>storageVal.
       if storageVal = None then Inl StorageValueNotFound else Inr storageTrie')))))))"

fun storage_loop :: "env \<Rightarrow> jsval \<Rightarrow> jsval \<Rightarrow> nat list \<Rightarrow> trie \<Rightarrow> exn + unit" where
  "storage_loop w storageProof storageKeys [] storageTrie = Inr ()"
| "storage_loop w storageProof storageKeys (i # rest) storageTrie =
     exn_bind (storage_step w storageProof storageKeys i storageTrie)
       (storage_loop w storageProof storageKeys rest)"

text \<open>
  The bound \<^verbatim>\<open>accessList[0].storageKeys.length\<close> of that loop. An array and a string
  have a number there; for a length that is not a number the loop is taken not to run.
\<close>

definition storage_bound :: "jsval \<Rightarrow> exn + nat" where
  "storage_bound storageKeys =
     exn_bind (js_prop storageKeys ''length'') (\<lambda>n. Inr (case n of Num k \<Rightarrow> nat k | _ \<Rightarrow> 0))"

text \<open>Everything \<^verbatim>\<open>verifyStatelessProof\<close> does after the answer to \<^verbatim>\<open>eth_getProof\<close>.\<close>

definition check_proofs :: "env \<Rightarrow> bytes \<Rightarrow> jsval \<Rightarrow> jsval \<Rightarrow> jsval \<Rightarrow> exn + unit" where
  "check_proofs w stateRoot address storageKeys proof =
     exn_bind (js_prop proof ''accountProof'') (\<lambda>accountProof.
     exn_bind (js_prop proof ''storageProof'') (\<lambda>storageProof.
     exn_bind (js_prop proof ''storageHash'') (\<lambda>storageHashHex.
     exn_bind (fromHexString w storageHashHex) (\<lambda>storageHash.
     exn_bind (js_map accountProof (fromHexString w)) (\<lambda>nodes.
     exn_bind (Trie_updateFromProof w \<lparr>trie_root = stateRoot, trie_proofs = []\<rparr> nodes) (\<lambda>stateTrie.
     exn_bind (fromHexString w address) (\<lambda>accessListAddress.
     exn_bind (Trie_get w stateTrie accessListAddress True) (\<lambda>val.
       if val = None then Inl AccountNotFound
       else
         exn_bind (storage_bound storageKeys) (\<lambda>n.
           storage_loop w storageProof storageKeys [0..<n]
             \<lparr>trie_root = storageHash, trie_proofs = []\<rparr>)))))))))"

text \<open>
  \<open>request\<close> passes its \<open>params\<close>, an array, so \<^verbatim>\<open>Array.isArray(params)\<close> holds and
  \<^verbatim>\<open>firstParam\<close> is its first element, \<^verbatim>\<open>undefined\<close> when there is none.
\<close>

definition verifyStatelessProof :: "env \<Rightarrow> client \<Rightarrow> jsval list \<Rightarrow> unit io" where
  "verifyStatelessProof w c params =
     io_bind ([StatelessProofCall], Inr ()) (\<lambda>called.
      if \<not> truthy_str (proverUrl c) then io_throw ProverUrlNotSet
      else
        io_bind (sendToProver w c ''eth_blockNumber'' []) (\<lambda>latestBlockNumber.
        io_bind (sendToProver w c ''eth_getBlockByNumber'' [latestBlockNumber, Bool False]) (\<lambda>block.
        io_bind (io_lift (js_prop block ''stateRoot'')) (\<lambda>stateRootHex.
        io_bind (io_lift (fromHexString w stateRootHex)) (\<lambda>stateRoot.
        io_bind (io_lift (extractDefinedProperties (case params of [] \<Rightarrow> Undefined | p # ps \<Rightarrow> p)))
          (\<lambda>createAccessListParams.
        io_bind (sendToProver w c ''eth_createAccessList'' [createAccessListParams]) (\<lambda>created.
        io_bind (io_lift (js_prop created ''accessList'')) (\<lambda>accessList.
        io_bind (io_lift (exn_bind (js_index accessList 0) (\<lambda>item. js_prop item ''address'')))
          (\<lambda>address.
        io_bind (io_lift (exn_bind (js_index accessList 0) (\<lambda>item. js_prop item ''storageKeys'')))
          (\<lambda>storageKeys.
        io_bind (sendToProver w c ''eth_getProof'' [address, storageKeys, latestBlockNumber])
          (\<lambda>proof.
        io_lift (check_proofs w stateRoot address storageKeys proof))))))))))))"

subsection \<open>request\<close>

definition light_client_call :: "client \<Rightarrow> string \<Rightarrow> bool" where
  "light_client_call c method = (truthy_str (proverUrl c) \<and> method = ''eth_call'')"

definition request :: "env \<Rightarrow> client \<Rightarrow> string \<Rightarrow> jsval list \<Rightarrow> jsval io" where
  "request w c method params =
     io_bind (if light_client_call c method then verifyStatelessProof w c params
              else io_return ()) (\<lambda>u.
     io_bind (sendJsonRpcRequest w (rpcUrl c) method params) (\<lambda>response.
       case response of
         Batch rs \<Rightarrow> io_throw UnexpectedBatchResponse
       | Single attestedResponse \<Rightarrow>
           io_bind (verifyAttestations w c attestedResponse) (\<lambda>isValid.
             if \<not> isValid
             then io_throw (AttestationThresholdNotMet (minimumRequiredAttestations c))
             else if truthy (error attestedResponse)
             then io_throw (rpc_error_of (error attestedResponse))
             else io_return (result attestedResponse))))"

text \<open>\<^verbatim>\<open>createStatelessTransport(config).request\<close>: the client built from the
  configuration, its \<open>request\<close> called.\<close>

record config =
  config_rpcUrl :: string
  config_identities :: "string list"
  config_minimumRequiredAttestations :: "int option"
  config_proverUrl :: "string option"

definition createStatelessTransport :: "env \<Rightarrow> config \<Rightarrow> string \<Rightarrow> jsval list \<Rightarrow> jsval io" where
  "createStatelessTransport w cfg method params =
     request w
       (StatelessRpcClient (config_rpcUrl cfg) (config_identities cfg)
          (Some (case config_minimumRequiredAttestations cfg of None \<Rightarrow> 1 | Some t \<Rightarrow> t))
          (config_proverUrl cfg))
       method params"

section \<open>The spec's words, for comparison with the code\<close>

text \<open>
  Batch mode as the specification words it: every digest of the content digest set
  appears in \<open>msgs\<close>, and every pair of a message and the signature at its position
  verifies (a message without a signature at its position does not).
\<close>

definition batch_valid_spec ::
  "env \<Rightarrow> string list \<Rightarrow> string list \<Rightarrow> bytes \<Rightarrow> string \<Rightarrow> string list \<Rightarrow> bool" where
  "batch_valid_spec w ms sigs publicKey algo contentHashes =
     (list_all (\<lambda>hash. hash \<in> set ms) contentHashes
      \<and> list_all (\<lambda>i. verifySignature w (ms ! i) (nth_opt sigs i) publicKey algo = Inr True)
           [0..<length ms])"

text \<open>
  What one turn of the loop decides about the attestation at a position: it aborts
  the pass when it throws, and the attestation is judged valid when it is pushed on
  \<^verbatim>\<open>validAttestations\<close>. \<open>valid_count\<close> is the number of attestations judged valid.
\<close>

definition aborts :: "env \<Rightarrow> string list \<Rightarrow> string list \<Rightarrow> nat \<times> attestation \<Rightarrow> bool" where
  "aborts w ids contentHashes ia =
     (case snd (loop_body w ids contentHashes (fst ia) (snd ia)) of
        Inl e \<Rightarrow> True
      | Inr pushed \<Rightarrow> False)"

definition judged_valid :: "env \<Rightarrow> string list \<Rightarrow> string list \<Rightarrow> nat \<times> attestation \<Rightarrow> bool" where
  "judged_valid w ids contentHashes ia =
     (case snd (loop_body w ids contentHashes (fst ia) (snd ia)) of
        Inl e \<Rightarrow> False
      | Inr pushed \<Rightarrow> pushed \<noteq> None)"

definition valid_count :: "env \<Rightarrow> string list \<Rightarrow> string list \<Rightarrow> attestation list \<Rightarrow> nat" where
  "valid_count w ids contentHashes atts =
     length (filter (judged_valid w ids contentHashes) (enumerate 0 atts))"

text \<open>
  What \<open>request\<close> hands to its caller for a response, given how attestation
  verification over that response ended: the error that aborted the verification, the
  threshold error, the response's RPC-level error, or the result.
\<close>

definition gated_result :: "client \<Rightarrow> attested_response \<Rightarrow> exn + bool \<Rightarrow> exn + jsval" where
  "gated_result c r verdict =
     (case verdict of
        Inl e \<Rightarrow> Inl e
      | Inr ok \<Rightarrow>
          if \<not> ok then Inl (AttestationThresholdNotMet (minimumRequiredAttestations c))
          else if truthy (error r) then Inl (rpc_error_of (error r))
          else Inr (result r))"

text \<open>The events of the proof stage: the call itself and POSTs to the prover URL.\<close>

definition prover_event :: "client \<Rightarrow> event \<Rightarrow> bool" where
  "prover_event c ev =
     (case ev of
        StatelessProofCall \<Rightarrow> True
      | HttpPost url method params \<Rightarrow> proverUrl c = Some url
      | _ \<Rightarrow> False)"

text \<open>The events of attestation verification: key fetches, key parses, checks.\<close>

definition attestation_event :: "event \<Rightarrow> bool" where
  "attestation_event ev =
     (case ev of
        KeyFetch url \<Rightarrow> True
      | KeyParse k \<Rightarrow> True
      | AttestationCheck i \<Rightarrow> True
      | _ \<Rightarrow> False)"

section \<open>A small world for the examples\<close>

text \<open>
  Identities \<open>https://a\<close>, \<open>https://b\<close> and \<open>https://c\<close> serve ed25519 keys,
  \<open>https://r\<close> serves an RSA key, \<open>https://j\<close> serves text that is no key, every other
  key lookup answers 404. The toy signature
  of a two-byte message is the message itself; a value is serialised to two letters and
  the toy digest of a string is the string.
\<close>

definition toy_get :: "string \<Rightarrow> get_outcome" where
  "toy_get url =
     (if url = ''https://a/.well-known/stateless-key'' then GetReply 200 (Some ''ssh-ed25519 A'')
      else if url = ''https://b/.well-known/stateless-key'' then GetReply 200 (Some ''ssh-ed25519 B'')
      else if url = ''https://c/.well-known/stateless-key'' then GetReply 200 (Some ''ssh-ed25519 C'')
      else if url = ''https://r/.well-known/stateless-key'' then GetReply 200 (Some ''ssh-rsa R'')
      else if url = ''https://j/.well-known/stateless-key'' then GetReply 200 (Some ''junk'')
      else GetReply 404 None)"

definition toy_parseKey :: "string \<Rightarrow> exn + ssh_key" where
  "toy_parseKey s =
     (if take 11 s = ''ssh-ed25519'' then Inr \<lparr>key_type = ''ed25519'', part_A_data = [1]\<rparr>
      else if take 7 s = ''ssh-rsa'' then Inr \<lparr>key_type = ''rsa'', part_A_data = []\<rparr>
      else Inl (LibraryError ''KeyParseError''))"

definition toy_hex :: "string \<Rightarrow> exn + bytes" where
  "toy_hex s = Inr (map (\<lambda>ch. if ch = CHR ''a'' then 10 else 11) s)"

definition toy_nacl :: "bytes \<Rightarrow> bytes \<Rightarrow> bytes \<Rightarrow> exn + bool" where
  "toy_nacl m sg pk =
     (if length sg \<noteq> 2 then Inl (LibraryError ''bad signature size'') else Inr (sg = m))"

definition toy_stringify :: "jsval \<Rightarrow> string" where
  "toy_stringify v = (case v of Str s \<Rightarrow> s | Obj kvs \<Rightarrow> ''bb'' | _ \<Rightarrow> ''aa'')"

definition att :: "string option \<Rightarrow> string \<Rightarrow> string \<Rightarrow> attestation" where
  "att ident m sg =
     \<lparr> signature = Some sg, signatures = None, signatureFormat = ''ssh'',
       hashAlgo = ''sha256'', msg = Some m, msgs = None, identity = ident \<rparr>"

definition batch_att :: "string option \<Rightarrow> string list \<Rightarrow> string list \<Rightarrow> attestation" where
  "batch_att ident ms sgs =
     \<lparr> signature = None, signatures = Some sgs, signatureFormat = ''ssh'',
       hashAlgo = ''sha256'', msg = None, msgs = Some ms, identity = ident \<rparr>"

definition reply :: "jsval \<Rightarrow> jsval \<Rightarrow> attestation list \<Rightarrow> post_outcome" where
  "reply res err atts =
     PostReply 200 (Some (Single \<lparr>result = res, error = err, attestations = atts\<rparr>))"

definition toy_error :: jsval where
  "toy_error = Obj [(''code'', Num (-32000)), (''message'', Str ''execution reverted'')]"

text \<open>
  The endpoint \<open>https://rpc\<close> answers \<open>eth_call\<close> with the result \<open>ab\<close> attested by
  \<open>https://a\<close>, \<open>eth_fail\<close> with an error attested by \<open>https://a\<close>, \<open>eth_bare\<close> with an
  error and no attestation, \<open>eth_rsa\<close> with the result \<open>ab\<close> attested by \<open>https://r\<close>,
  \<open>eth_both\<close> with both the result \<open>ab\<close> and an error, attested by \<open>https://a\<close> for
  the digest of the result, and everything else with the result \<open>ab\<close> and no attestation. The prover \<open>https://good\<close>
  answers the four calls of the proof protocol with a state root, an access list of one
  address and one storage key, and proofs that hold both; the prover \<open>https://omit\<close>
  answers the same but for an empty account proof. Every other URL, the prover
  \<open>https://prover\<close> among them, answers 500. The toy trie holds a key when one of the
  proofs it absorbed consists of that key.
\<close>

definition toy_prover :: "bool \<Rightarrow> string \<Rightarrow> post_outcome" where
  "toy_prover with_account method =
     (if method = ''eth_blockNumber'' then reply (Str ''0x1'') Undefined []
      else if method = ''eth_getBlockByNumber'' then
        reply (Obj [(''number'', Str ''0x1''), (''stateRoot'', Str ''0xaa'')]) Undefined []
      else if method = ''eth_createAccessList'' then
        reply (Obj [(''accessList'',
                     Arr [Obj [(''address'', Str ''0xab''), (''storageKeys'', Arr [Str ''0xba''])]])])
          Undefined []
      else if method = ''eth_getProof'' then
        reply (Obj [(''accountProof'', Arr (if with_account then [Str ''0xab''] else [])),
                    (''storageHash'', Str ''0xbb''),
                    (''storageProof'', Arr [Obj [(''key'', Str ''0xba''), (''proof'', Arr [Str ''0xba''])]])])
          Undefined []
      else PostReply 500 None)"

definition toy_post :: "string \<Rightarrow> string \<Rightarrow> jsval list \<Rightarrow> post_outcome" where
  "toy_post url method params =
     (if url = ''https://rpc'' then
        (if method = ''eth_call'' then reply (Str ''ab'') Undefined [att (Some ''https://a'') ''ab'' ''ab'']
         else if method = ''eth_fail'' then reply Undefined toy_error [att (Some ''https://a'') ''bb'' ''bb'']
         else if method = ''eth_bare'' then reply Undefined toy_error []
         else if method = ''eth_rsa'' then reply (Str ''ab'') Undefined [att (Some ''https://r'') ''ab'' ''ab'']
         else if method = ''eth_both'' then reply (Str ''ab'') toy_error [att (Some ''https://a'') ''ab'' ''ab'']
         else reply (Str ''ab'') Undefined [])
      else if url = ''https://good'' then toy_prover True method
      else if url = ''https://omit'' then toy_prover False method
      else PostReply 500 None)"

definition toy_world :: env where
  "toy_world =
     \<lparr> http_post = toy_post,
       http_get = toy_get,
       sshpk_parseKey = toy_parseKey,
       Buffer_from_hex = toy_hex,
       nacl_verify = toy_nacl,
       JSON_stringify = toy_stringify,
       sha256_hex = (\<lambda>s. s),
       parse_hex_pairs = map (\<lambda>ch. if ch = CHR ''a'' then 10 else 11),
       Trie_updateFromProof = (\<lambda>t nodes. Inr (t\<lparr>trie_proofs := trie_proofs t @ [nodes]\<rparr>)),
       Trie_get = (\<lambda>t k throwIfMissing.
                     Inr (if [k] \<in> set (trie_proofs t) then Some k else None)) \<rparr>"

text \<open>Attestation lists and allow-lists of the examples.\<close>

definition abc :: "string list" where
  "abc = [''https://a'', ''https://b'', ''https://c'']"

definition three :: "attestation list" where
  "three = [att (Some ''https://a'') ''ab'' ''ab'', att (Some ''https://b'') ''ab'' ''ab'',
            att (Some ''https://c'') ''ab'' ''ba'']"

definition valid_then_rsa :: "attestation list" where
  "valid_then_rsa = [att (Some ''https://a'') ''ab'' ''ab'', att (Some ''https://r'') ''ab'' ''ab'']"

definition valid_then_junk :: "attestation list" where
  "valid_then_junk = [att (Some ''https://a'') ''ab'' ''ab'', att (Some ''https://j'') ''ab'' ''ab'']"

definition down_then_valid :: "attestation list" where
  "down_then_valid = [att (Some ''https://down'') ''ab'' ''ab'', att (Some ''https://a'') ''ab'' ''ab'']"


text \<open>Clients, parameters and a response of the examples.\<close>

definition with_prover :: "string \<Rightarrow> client" where
  "with_prover u = StatelessRpcClient ''https://rpc'' [''https://a''] None (Some u)"

definition call_params :: "jsval list" where
  "call_params = [Obj [(''to'', Str ''0xab''), (''data'', Undefined)], Str ''latest'']"

definition only_a :: "int option \<Rightarrow> client" where
  "only_a t = StatelessRpcClient ''https://rpc'' [''https://a''] t None"

definition attested_ab :: attested_response where
  "attested_ab = \<lparr>result = Str ''ab'', error = Undefined,
                   attestations = [att (Some ''https://a'') ''ab'' ''ab'']\<rparr>"

definition only_r :: client where
  "only_r = StatelessRpcClient ''https://rpc'' [''https://r''] (Some 0) None"

section \<open>Basic facts\<close>

lemma io_bind_return: "io_bind (io_return x) f = f x"
  by (simp add: io_bind_def io_return_def split: prod.splits)

lemma io_bind_assoc: "io_bind (io_bind m f) g = io_bind m (\<lambda>x. io_bind (f x) g)"
  by (auto simp: io_bind_def split: prod.splits sum.splits)

lemma verifySignature_Inr:
  "verifySignature w m s pk algo = Inr (verifySignature_try w m s pk = Inr True)"
  by (cases "verifySignature_try w m s pk") (auto simp: verifySignature_def try_catch_def)

lemma every_from_total:
  "every_from i (\<lambda>x j. Inr (g x j)) xs = Inr (\<forall>k<length xs. g (xs ! k) (i + k))"
  by (induction xs arbitrary: i) (simp_all add: All_less_Suc2)

lemma batch_valid_spec_iff:
  "batch_valid_spec w ms sigs pk algo hs \<longleftrightarrow>
     set hs \<subseteq> set ms
     \<and> (\<forall>i<length ms. verifySignature w (ms ! i) (nth_opt sigs i) pk algo = Inr True)"
  by (auto simp: batch_valid_spec_def list_all_iff)

lemma toy_verifySignature:
  "verifySignature toy_world m (Some s) pk algo = Inr (length s = 2 \<and> map (\<lambda>ch. ch = CHR ''a'') s = map (\<lambda>ch. ch = CHR ''a'') m)"
  by (auto simp: verifySignature_def verifySignature_try_def try_catch_def exn_bind_def
      Buffer_from_def toy_world_def toy_hex_def toy_nacl_def list_eq_iff_nth_eq)

lemma loop_append:
  "attestation_loop w ids hs i (xs @ ys) acc
   = io_bind (attestation_loop w ids hs i xs acc)
       (\<lambda>v. attestation_loop w ids hs (i + length xs) ys v)"
  by (induction xs arbitrary: i acc) (simp_all add: io_bind_return io_bind_assoc)

lemma loop_body_skip:
  "\<not> includes_identity ids (identity (assign_identity ids i a))
   \<Longrightarrow> loop_body w ids hs i a = ([], Inr None)"
  by (simp add: loop_body_def Let_def io_return_def)

lemma fst_publicKeyFromIdentity:
  "fst (publicKeyFromIdentity w ident) = [KeyFetch (ident @ ''/.well-known/stateless-key'')]"
  by (simp add: publicKeyFromIdentity_def Let_def)

lemma loop_body_fetch_failed:
  assumes "includes_identity ids (identity (assign_identity ids i a))"
    and "snd (publicKeyFromIdentity w (the (identity (assign_identity ids i a)))) = Inl e"
  shows "loop_body w ids hs i a
         = ([KeyFetch (the (identity (assign_identity ids i a)) @ ''/.well-known/stateless-key'')],
            Inr None)"
proof -
  obtain tr where p: "publicKeyFromIdentity w (the (identity (assign_identity ids i a))) = (tr, Inl e)"
    using assms(2) by (cases "publicKeyFromIdentity w (the (identity (assign_identity ids i a)))") auto
  have tr: "tr = [KeyFetch (the (identity (assign_identity ids i a)) @ ''/.well-known/stateless-key'')]"
    using fst_publicKeyFromIdentity [of w "the (identity (assign_identity ids i a))"] p by simp
  show ?thesis
    using assms(1) p tr
    by (simp add: loop_body_def Let_def fetch_key_or_continue_def io_bind_def io_return_def)
qed

lemma loop_body_not_ed25519:
  assumes "includes_identity ids (identity (assign_identity ids i a))"
    and "snd (publicKeyFromIdentity w (the (identity (assign_identity ids i a)))) = Inr k"
    and "sshpk_parseKey w k = Inr key" and "key_type key \<noteq> ''ed25519''"
  shows "loop_body w ids hs i a
         = ([KeyFetch (the (identity (assign_identity ids i a)) @ ''/.well-known/stateless-key''),
             KeyParse k],
            Inl NotEd25519Key)"
proof -
  obtain tr where p: "publicKeyFromIdentity w (the (identity (assign_identity ids i a))) = (tr, Inr k)"
    using assms(2) by (cases "publicKeyFromIdentity w (the (identity (assign_identity ids i a)))") auto
  have tr: "tr = [KeyFetch (the (identity (assign_identity ids i a)) @ ''/.well-known/stateless-key'')]"
    using fst_publicKeyFromIdentity [of w "the (identity (assign_identity ids i a))"] p by simp
  show ?thesis
    using assms(1,3,4) p tr
    by (simp add: loop_body_def Let_def fetch_key_or_continue_def io_bind_def io_return_def
        io_throw_def)
qed

lemma loop_no_abort:
  "list_all (\<lambda>x. \<not> aborts w ids hs x) (enumerate i atts)
   \<Longrightarrow> \<exists>tr v. attestation_loop w ids hs i atts acc = (tr, Inr v)
        \<and> length v = length acc + length (filter (judged_valid w ids hs) (enumerate i atts))"
proof (induction atts arbitrary: i acc)
  case Nil
  then show ?case by (simp add: io_return_def)
next
  case (Cons a atts)
  from Cons.prems have na: "\<not> aborts w ids hs (i, a)"
    and rest: "list_all (\<lambda>x. \<not> aborts w ids hs x) (enumerate (Suc i) atts)"
    by simp_all
  from na obtain tr pushed where b: "loop_body w ids hs i a = (tr, Inr pushed)"
    by (cases "loop_body w ids hs i a") (auto simp: aborts_def split: sum.splits)
  let ?acc = "case pushed of None \<Rightarrow> acc | Some a' \<Rightarrow> acc @ [a']"
  from Cons.IH [OF rest, of ?acc] obtain tr' v where
    l: "attestation_loop w ids hs (Suc i) atts ?acc = (tr', Inr v)"
    and n: "length v = length ?acc + length (filter (judged_valid w ids hs) (enumerate (Suc i) atts))"
    by blast
  have "attestation_loop w ids hs i (a # atts) acc = (tr @ tr', Inr v)"
    using b l by (simp add: io_bind_def)
  moreover have "length v = length acc + length (filter (judged_valid w ids hs) (enumerate i (a # atts)))"
    using n b by (cases pushed) (simp_all add: judged_valid_def)
  ultimately show ?case by blast
qed

lemma snd_io_bind_Inl: "snd m = Inl e \<Longrightarrow> snd (io_bind m f) = Inl e"
  by (cases m) (simp add: io_bind_def)

lemma snd_io_bind_Inr: "m = (tr, Inr x) \<Longrightarrow> snd (io_bind m f) = snd (f x)"
  by (simp add: io_bind_def split: prod.splits)

lemma snd_io_bind_all_Inl:
  "(\<And>x. \<exists>e. snd (f x) = Inl e) \<Longrightarrow> \<exists>e. snd (io_bind m f) = Inl e"
proof -
  assume a: "\<And>x. \<exists>e. snd (f x) = Inl e"
  obtain tr r where m: "m = (tr, r)" by (cases m)
  show ?thesis
  proof (cases r)
    case (Inl e)
    then show ?thesis using m by (simp add: io_bind_def)
  next
    case (Inr x)
    from a [of x] obtain e where "snd (f x) = Inl e" by blast
    then show ?thesis using m Inr by (cases "f x") (simp add: io_bind_def)
  qed
qed

lemma loop_body_parse_failed:
  assumes "includes_identity ids (identity (assign_identity ids i a))"
    and "snd (publicKeyFromIdentity w (the (identity (assign_identity ids i a)))) = Inr k"
    and "sshpk_parseKey w k = Inl e"
  shows "loop_body w ids hs i a
         = ([KeyFetch (the (identity (assign_identity ids i a)) @ ''/.well-known/stateless-key''),
             KeyParse k],
            Inl e)"
proof -
  obtain tr where p: "publicKeyFromIdentity w (the (identity (assign_identity ids i a))) = (tr, Inr k)"
    using assms(2) by (cases "publicKeyFromIdentity w (the (identity (assign_identity ids i a)))") auto
  have tr: "tr = [KeyFetch (the (identity (assign_identity ids i a)) @ ''/.well-known/stateless-key'')]"
    using fst_publicKeyFromIdentity [of w "the (identity (assign_identity ids i a))"] p by simp
  show ?thesis
    using assms(1,3) p tr
    by (simp add: loop_body_def Let_def fetch_key_or_continue_def io_bind_def)
qed

text \<open>A turn of the loop that throws ends the pass, and with it \<open>verifyAttestations\<close>.\<close>

lemma abort_at_position:
  assumes "attestations r = xs @ a # ys"
    and "\<And>hs. snd (loop_body w (identities c) hs (length xs) a) = Inl e0"
  shows "snd (attestation_loop w (identities c) hs 0 (attestations r) [])
           = (case snd (attestation_loop w (identities c) hs 0 xs []) of
                Inl e \<Rightarrow> Inl e
              | Inr valid \<Rightarrow> Inl e0)
         \<and> (\<exists>e. snd (verifyAttestations w c r) = Inl e)"
proof -
  have t: "snd (attestation_loop w (identities c) hs' (length xs) (a # ys) valid) = Inl e0"
    for valid hs'
    using assms(2) [of hs'] by (simp add: snd_io_bind_Inl)
  have l: "snd (attestation_loop w (identities c) hs' 0 (attestations r) [])
           = (case snd (attestation_loop w (identities c) hs' 0 xs []) of
                     Inl e \<Rightarrow> Inl e
                   | Inr valid \<Rightarrow> Inl e0)" for hs'
  proof (cases "attestation_loop w (identities c) hs' 0 xs []")
    case (Pair tr res)
    show ?thesis
    proof (cases res)
      case (Inl e)
      then show ?thesis using Pair by (simp add: assms(1) loop_append io_bind_def)
    next
      case (Inr valid)
      have "snd (attestation_loop w (identities c) hs' 0 (xs @ a # ys) [])
            = snd (attestation_loop w (identities c) hs' (length xs) (a # ys) valid)"
        using Pair Inr by (simp only: loop_append add_0 snd_io_bind_Inr)
      then show ?thesis
        using Pair Inr t [of hs' valid] by (simp only: assms(1) snd_conv sum.case)
    qed
  qed
  have "\<exists>e. snd (attestation_loop w (identities c) hs' 0 (attestations r) []) = Inl e" for hs'
    using l [of hs'] by (auto split: sum.splits)
  then have "\<exists>e. snd (io_bind (attestation_loop w (identities c) hs' 0 (attestations r) []) g) = Inl e"
    for hs' and g :: "attestation list \<Rightarrow> bool io"
    using snd_io_bind_Inl by blast
  then have "\<exists>e. snd (verifyAttestations w c r) = Inl e"
    unfolding verifyAttestations_def Let_def
    by (rule snd_io_bind_all_Inl)
  then show ?thesis using l [of hs] by simp
qed

lemmas toy_defs = toy_world_def toy_get_def toy_parseKey_def toy_hex_def toy_nacl_def
  toy_stringify_def att_def batch_att_def

lemmas run_defs = loop_body_def assign_identity_def includes_identity_def truthy_str_def
  fetch_key_or_continue_def publicKeyFromIdentity_def io_bind_def io_return_def io_throw_def
  io_lift_def verifyAttestation_def batch_mode_def single_mode_def Let_def
  verifySignature_def verifySignature_try_def try_catch_def exn_bind_def Buffer_from_def

lemma toy_valid_a:
  "''https://a'' \<in> set ids \<Longrightarrow>
   loop_body toy_world ids [''ab''] i (att (Some ''https://a'') ''ab'' ''ab'')
   = ([KeyFetch ''https://a/.well-known/stateless-key'', KeyParse ''ssh-ed25519 A'',
       AttestationCheck i], Inr (Some (att (Some ''https://a'') ''ab'' ''ab'')))"
  by (simp add: run_defs toy_defs)

lemma toy_rsa:
  "''https://r'' \<in> set ids \<Longrightarrow>
   loop_body toy_world ids [''ab''] i (att (Some ''https://r'') ''ab'' ''ab'')
   = ([KeyFetch ''https://r/.well-known/stateless-key'', KeyParse ''ssh-rsa R''], Inl NotEd25519Key)"
  by (simp add: run_defs toy_defs)

lemma toy_junk:
  "''https://j'' \<in> set ids \<Longrightarrow>
   loop_body toy_world ids [''ab''] i (att (Some ''https://j'') ''ab'' ''ab'')
   = ([KeyFetch ''https://j/.well-known/stateless-key'', KeyParse ''junk''],
      Inl (LibraryError ''KeyParseError''))"
  by (simp add: run_defs toy_defs)

lemmas content_defs = hashContent_def hashItem_def nullish_def exn_bind_def


lemma events_bind:
  assumes "list_all P (fst m)" and "\<And>x. list_all P (fst (f x))"
  shows "list_all P (fst (io_bind m f))"
proof (cases m)
  case (Pair tr r)
  show ?thesis
  proof (cases r)
    case (Inl e)
    then show ?thesis using Pair assms(1) by (simp add: io_bind_def)
  next
    case (Inr x)
    then show ?thesis
      using Pair assms(1) assms(2) [of x] by (auto simp: io_bind_def split: prod.splits)
  qed
qed

lemma events_lift: "list_all P (fst (io_lift r))"
  by (simp add: io_lift_def)

lemma events_throw: "list_all P (fst (io_throw e))"
  by (simp add: io_throw_def)

lemma events_return: "list_all P (fst (io_return e))"
  by (simp add: io_return_def)

lemma sendToProver_events: "list_all (prover_event c) (fst (sendToProver w c method params))"
proof (cases "truthy_str (proverUrl c)")
  case False
  then show ?thesis by (simp add: sendToProver_def io_throw_def)
next
  case True
  then obtain u where u: "proverUrl c = Some u" by (auto simp: truthy_str_def split: option.splits)
  have "list_all (prover_event c) (fst (sendJsonRpcRequest w (the (proverUrl c)) method params))"
    by (simp add: sendJsonRpcRequest_def prover_event_def u)
  then show ?thesis
    using True unfolding sendToProver_def
    by (auto intro!: events_bind simp: io_throw_def io_return_def split: json_reply.splits)
qed

lemma verifyStatelessProof_events:
  "list_all (prover_event c) (fst (verifyStatelessProof w c params))"
  unfolding verifyStatelessProof_def
  by (intro events_bind sendToProver_events events_lift)
     (simp_all add: prover_event_def events_throw events_bind sendToProver_events events_lift)

lemma verifyStatelessProof_first:
  "\<exists>rest. fst (verifyStatelessProof w c params) = StatelessProofCall # rest"
  unfolding verifyStatelessProof_def
  by (simp add: io_bind_def split: prod.splits sum.splits)

lemmas proof_defs = verifyStatelessProof_def sendToProver_def sendJsonRpcRequest_def
  response_ok_def truthy_str_def io_bind_def io_return_def io_throw_def io_lift_def
  js_prop_def js_index_def js_map_def lookup_key_def fromHexString_def
  extractDefinedProperties_def Object_entries_def exn_bind_def check_proofs_def
  storage_bound_def storage_step_def toy_post_def toy_prover_def reply_def toy_world_def

lemma toy_proof_good:
  "verifyStatelessProof toy_world (with_prover ''https://good'') call_params
   = ([StatelessProofCall,
       HttpPost ''https://good'' ''eth_blockNumber'' [],
       HttpPost ''https://good'' ''eth_getBlockByNumber'' [Str ''0x1'', Bool False],
       HttpPost ''https://good'' ''eth_createAccessList'' [Obj [(''to'', Str ''0xab'')]],
       HttpPost ''https://good'' ''eth_getProof'' [Str ''0xab'', Arr [Str ''0xba''], Str ''0x1'']],
      Inr ())"
  by (simp add: proof_defs with_prover_def StatelessRpcClient_def call_params_def)

lemma toy_proof_omit:
  "verifyStatelessProof toy_world (with_prover ''https://omit'') call_params
   = ([StatelessProofCall,
       HttpPost ''https://omit'' ''eth_blockNumber'' [],
       HttpPost ''https://omit'' ''eth_getBlockByNumber'' [Str ''0x1'', Bool False],
       HttpPost ''https://omit'' ''eth_createAccessList'' [Obj [(''to'', Str ''0xab'')]],
       HttpPost ''https://omit'' ''eth_getProof'' [Str ''0xab'', Arr [Str ''0xba''], Str ''0x1'']],
      Inl AccountNotFound)"
  by (simp add: proof_defs with_prover_def StatelessRpcClient_def call_params_def)

lemma loop_body_events: "list_all attestation_event (fst (loop_body w ids hs i a))"
  unfolding loop_body_def Let_def fetch_key_or_continue_def publicKeyFromIdentity_def
  by (auto simp: io_bind_def io_return_def io_throw_def attestation_event_def
      split: prod.splits sum.splits option.splits get_outcome.splits)

lemma attestation_loop_events:
  "list_all attestation_event (fst (attestation_loop w ids hs i atts acc))"
proof (induction atts arbitrary: i acc)
  case Nil
  then show ?case by (simp add: io_return_def)
next
  case (Cons a atts)
  show ?case
    unfolding attestation_loop.simps
    by (rule events_bind) (simp_all add: loop_body_events Cons.IH)
qed

lemma verifyAttestations_events:
  "list_all attestation_event (fst (verifyAttestations w c r))"
  unfolding verifyAttestations_def Let_def
  by (intro events_bind events_lift attestation_loop_events events_return)

lemma verifyAttestations_proverUrl:
  "verifyAttestations w (c\<lparr>proverUrl := p\<rparr>) r = verifyAttestations w c r"
  by (simp add: verifyAttestations_def)

lemma request_single:
  assumes "snd (sendJsonRpcRequest w (rpcUrl c) method params) = Inr (Single r)"
    and "\<not> light_client_call c method"
  shows "request w c method params
         = (HttpPost (rpcUrl c) method params # fst (verifyAttestations w c r),
            gated_result c r (snd (verifyAttestations w c r)))"
proof -
  have s: "sendJsonRpcRequest w (rpcUrl c) method params
           = ([HttpPost (rpcUrl c) method params], Inr (Single r))"
    using assms(1) by (cases "sendJsonRpcRequest w (rpcUrl c) method params")
      (auto simp: sendJsonRpcRequest_def)
  obtain tr v where v: "verifyAttestations w c r = (tr, v)"
    by (cases "verifyAttestations w c r")
  show ?thesis
    using assms(2) s v
    by (cases v) (simp_all add: request_def io_bind_def io_return_def io_throw_def
        gated_result_def)
qed

lemma request_main_first:
  assumes "\<not> light_client_call c method"
  shows "\<exists>rest. fst (request w c method params) = HttpPost (rpcUrl c) method params # rest
               \<and> list_all attestation_event rest"
proof -
  obtain res where s: "sendJsonRpcRequest w (rpcUrl c) method params
           = ([HttpPost (rpcUrl c) method params], res)"
    by (simp add: sendJsonRpcRequest_def)
  show ?thesis
  proof (cases res)
    case (Inl e)
    then show ?thesis using assms s by (simp add: request_def io_bind_def io_return_def)
  next
    case (Inr rep)
    show ?thesis
    proof (cases rep)
      case (Batch rs)
      then show ?thesis
        using assms s Inr by (simp add: request_def io_bind_def io_return_def io_throw_def)
    next
      case (Single r)
      have "snd (sendJsonRpcRequest w (rpcUrl c) method params) = Inr (Single r)"
        using s Inr Single by simp
      from request_single [OF this assms] show ?thesis
        by (simp add: verifyAttestations_events)
    qed
  qed
qed

lemma request_light:
  assumes "light_client_call c method"
  shows "request w c method params
         = io_bind (verifyStatelessProof w c params)
             (\<lambda>u. request w (c\<lparr>proverUrl := None\<rparr>) method params)"
  using assms
  by (simp add: request_def light_client_call_def truthy_str_def io_bind_return
      verifyAttestations_proverUrl cong: json_reply.case_cong if_cong)



lemma toy_main:
  "snd (sendJsonRpcRequest toy_world ''https://rpc'' ''eth_call'' params) = Inr (Single attested_ab)"
  "snd (sendJsonRpcRequest toy_world ''https://rpc'' ''eth_fail'' params)
     = Inr (Single \<lparr>result = Undefined, error = toy_error,
                     attestations = [att (Some ''https://a'') ''bb'' ''bb'']\<rparr>)"
  "snd (sendJsonRpcRequest toy_world ''https://rpc'' ''eth_bare'' params)
     = Inr (Single \<lparr>result = Undefined, error = toy_error, attestations = []\<rparr>)"
  "snd (sendJsonRpcRequest toy_world ''https://rpc'' ''eth_rsa'' params)
     = Inr (Single \<lparr>result = Str ''ab'', error = Undefined,
                     attestations = [att (Some ''https://r'') ''ab'' ''ab'']\<rparr>)"
  "snd (sendJsonRpcRequest toy_world ''https://rpc'' ''eth_chainId'' params)
     = Inr (Single \<lparr>result = Str ''ab'', error = Undefined, attestations = []\<rparr>)"
  "snd (sendJsonRpcRequest toy_world ''https://rpc'' ''eth_both'' params)
     = Inr (Single \<lparr>result = Str ''ab'', error = toy_error,
                     attestations = [att (Some ''https://a'') ''ab'' ''ab'']\<rparr>)"
  by (simp_all add: sendJsonRpcRequest_def toy_world_def toy_post_def reply_def response_ok_def
      attested_ab_def)

lemma toy_verify_ab:
  assumes "identities c = [''https://a'']"
  shows "verifyAttestations toy_world c attested_ab
         = ([KeyFetch ''https://a/.well-known/stateless-key'', KeyParse ''ssh-ed25519 A'',
             AttestationCheck 0], Inr (minimumRequiredAttestations c \<le> 1))"
proof -
  have h: "hashContent toy_world (Str ''ab'') = Inr [''ab'']"
    by (simp add: content_defs toy_defs)
  show ?thesis
    using h toy_valid_a [of "[''https://a'']" 0]
    by (simp add: verifyAttestations_def attested_ab_def assms nullish_def io_bind_def
        io_lift_def io_return_def)
qed

lemma verifyAttestations_verdict:
  assumes "snd (verifyAttestations w c r) = Inr ok"
  shows "\<exists>valid :: attestation list. ok = (minimumRequiredAttestations c \<le> int (length valid))"
proof (cases "hashContent w (nullish (result r) (error r))")
  case (Inl e)
  then show ?thesis
    using assms by (simp add: verifyAttestations_def io_bind_def io_lift_def)
next
  case (Inr hs)
  obtain tr res where l: "attestation_loop w (identities c) hs 0 (attestations r) [] = (tr, res)"
    by (cases "attestation_loop w (identities c) hs 0 (attestations r) []")
  show ?thesis
  proof (cases res)
    case (Inl e)
    then show ?thesis
      using assms Inr l by (simp add: verifyAttestations_def io_bind_def io_lift_def)
  next
    case valid: (Inr valid)
    then have "ok = (minimumRequiredAttestations c \<le> int (length valid))"
      using assms Inr l
      by (auto simp: verifyAttestations_def io_bind_def io_lift_def io_return_def)
    then show ?thesis by blast
  qed
qed

section \<open>Signature and attestation checks\<close>

text \<open>
  Claim C8. \<open>verifySignature\<close> returns a boolean for every digest string, signature
  (also a missing one), public key and hash-algorithm tag, whatever the decoding and
  the verification library do: it never ends in an exception. A signature or a digest
  that fails to decode gives \<open>False\<close>, an error of the verification library gives
  \<open>False\<close>, and otherwise the result is the library's answer.
\<close>

theorem verifySignature_never_throws:
  "(\<exists>b. verifySignature w msgHash sg publicKey algo = Inr b)
   \<and> (\<forall>e. Buffer_from w sg = Inl e \<longrightarrow> verifySignature w msgHash sg publicKey algo = Inr False)
   \<and> (\<forall>e. Buffer_from w (Some msgHash) = Inl e
          \<longrightarrow> verifySignature w msgHash sg publicKey algo = Inr False)
   \<and> (\<forall>sb mb e. Buffer_from w sg = Inr sb \<and> Buffer_from w (Some msgHash) = Inr mb
          \<and> nacl_verify w mb sb publicKey = Inl e
          \<longrightarrow> verifySignature w msgHash sg publicKey algo = Inr False)
   \<and> (\<forall>sb mb b. Buffer_from w sg = Inr sb \<and> Buffer_from w (Some msgHash) = Inr mb
          \<and> nacl_verify w mb sb publicKey = Inr b
          \<longrightarrow> verifySignature w msgHash sg publicKey algo = Inr b)"
  by (auto simp: verifySignature_def verifySignature_try_def try_catch_def exn_bind_def
      split: sum.splits)

text \<open>
  In the small world: a missing signature cannot be decoded, a one-byte signature is
  refused by the library with an error, and both give \<open>False\<close>; the right signature
  gives \<open>True\<close>.
\<close>

theorem verifySignature_never_throws_witness:
  "Buffer_from toy_world None = Inl TypeError
   \<and> verifySignature toy_world ''ab'' None [1] ''sha256'' = Inr False
   \<and> nacl_verify toy_world [10, 11] [10] [1] = Inl (LibraryError ''bad signature size'')
   \<and> verifySignature toy_world ''ab'' (Some ''a'') [1] ''sha256'' = Inr False
   \<and> verifySignature toy_world ''ab'' (Some ''ab'') [1] ''sha256'' = Inr True"
proof -
  have d: "Buffer_from toy_world None = Inl TypeError"
    by (simp add: Buffer_from_def)
  have s1: "Buffer_from toy_world (Some ''a'') = Inr [10]"
    and s2: "Buffer_from toy_world (Some ''ab'') = Inr [10, 11]"
    by (simp_all add: Buffer_from_def toy_world_def toy_hex_def)
  have n1: "nacl_verify toy_world [10, 11] [10] [1] = Inl (LibraryError ''bad signature size'')"
    and n2: "nacl_verify toy_world [10, 11] [10, 11] [1] = Inr True"
    by (simp_all add: toy_world_def toy_nacl_def)
  from verifySignature_never_throws [of toy_world "''ab''" None "[1]" "''sha256''"] d
  have a: "verifySignature toy_world ''ab'' None [1] ''sha256'' = Inr False" by blast
  from verifySignature_never_throws [of toy_world "''ab''" "Some ''a''" "[1]" "''sha256''"] s1 s2 n1
  have b: "verifySignature toy_world ''ab'' (Some ''a'') [1] ''sha256'' = Inr False" by blast
  from verifySignature_never_throws [of toy_world "''ab''" "Some ''ab''" "[1]" "''sha256''"] s2 n2
  have c: "verifySignature toy_world ''ab'' (Some ''ab'') [1] ''sha256'' = Inr True" by blast
  show ?thesis using a b c d n1 by simp
qed

text \<open>
  Claim C2, as amended. For every attestation that carries a \<^emph>\<open>non-empty\<close> \<open>msgs\<close> and
  \<open>signatures\<close>, and every content digest set, the attestation is judged valid if and
  only if every digest of the set appears in \<open>msgs\<close> (entries of \<open>msgs\<close> beyond them are
  tolerated) and every message verifies against the key with the signature at its
  position. So one failing pair, or a message that has no signature at its position,
  makes the attestation invalid.
\<close>

theorem verifyAttestation_batch:
  assumes "msgs a = Some ms" and "ms \<noteq> []" and "signatures a = Some sigs"
  shows "verifyAttestation w a publicKey contentHashes
           = Inr (batch_valid_spec w ms sigs publicKey (hashAlgo a) contentHashes)
         \<and> (batch_valid_spec w ms sigs publicKey (hashAlgo a) contentHashes \<longleftrightarrow>
              set contentHashes \<subseteq> set ms
              \<and> (\<forall>i<length ms.
                   verifySignature w (ms ! i) (nth_opt sigs i) publicKey (hashAlgo a) = Inr True))"
proof -
  have b: "batch_mode a" using assms by (simp add: batch_mode_def)
  have e: "every (\<lambda>m index. verifySignature w m (nth_opt sigs index) publicKey (hashAlgo a)) ms
           = Inr (\<forall>k<length ms. verifySignature_try w (ms ! k) (nth_opt sigs k) publicKey = Inr True)"
    unfolding every_def verifySignature_Inr using every_from_total [of 0 _ ms] by simp
  have s: "verifySignature w m sg publicKey algo = Inr True
           \<longleftrightarrow> verifySignature_try w m sg publicKey = Inr True" for m sg algo
    by (simp add: verifySignature_Inr)
  have "verifyAttestation w a publicKey contentHashes
         = Inr (batch_valid_spec w ms sigs publicKey (hashAlgo a) contentHashes)"
    using b assms e
    by (auto simp: verifyAttestation_def batch_valid_spec_def s list_all_iff)
  then show ?thesis by (simp add: batch_valid_spec_iff)
qed

text \<open>
  The claim as it was stated fails for an attestation whose \<open>msgs\<close> is the empty array:
  with an empty content digest set (the result \<^verbatim>\<open>[]\<close>) every digest appears in \<open>msgs\<close>
  and every pair verifies, there being none, yet the source's test
  \<^verbatim>\<open>attestation.msgs.length > 0\<close> sends the attestation past batch mode and it is
  judged invalid.
\<close>

theorem verifyAttestation_empty_msgs_counterexample:
  "msgs (batch_att (Some ''https://a'') [] []) = Some []
   \<and> signatures (batch_att (Some ''https://a'') [] []) = Some []
   \<and> batch_valid_spec toy_world [] [] [1] ''sha256'' []
   \<and> verifyAttestation toy_world (batch_att (Some ''https://a'') [] []) [1] [] = Inr False"
  by (simp add: batch_valid_spec_def verifyAttestation_def batch_mode_def single_mode_def
      batch_att_def truthy_str_def)

text \<open>
  Three messages with their signatures cover the two content digests: valid. The same
  with a wrong third signature: invalid, although the third message is not a content
  digest.
\<close>

theorem verifyAttestation_batch_witness:
  "verifyAttestation toy_world
       (batch_att (Some ''https://a'') [''ab'', ''ba'', ''aa''] [''ab'', ''ba'', ''aa''])
       [1] [''ab'', ''ba'']
     = Inr True
   \<and> verifyAttestation toy_world
       (batch_att (Some ''https://a'') [''ab'', ''ba'', ''aa''] [''ab'', ''ba'', ''bb''])
       [1] [''ab'', ''ba'']
     = Inr False"
proof -
  let ?a = "batch_att (Some ''https://a'') [''ab'', ''ba'', ''aa''] [''ab'', ''ba'', ''aa'']"
  let ?b = "batch_att (Some ''https://a'') [''ab'', ''ba'', ''aa''] [''ab'', ''ba'', ''bb'']"
  have "verifyAttestation toy_world ?a [1] [''ab'', ''ba''] = Inr True"
    using verifyAttestation_batch [where a = ?a and ms = "[''ab'', ''ba'', ''aa'']"
        and sigs = "[''ab'', ''ba'', ''aa'']" and w = toy_world and publicKey = "[1]"
        and contentHashes = "[''ab'', ''ba'']"]
    by (simp add: batch_att_def toy_verifySignature nth_opt_def All_less_Suc
        numeral_3_eq_3)
  moreover have "verifyAttestation toy_world ?b [1] [''ab'', ''ba''] = Inr False"
    using verifyAttestation_batch [where a = ?b and ms = "[''ab'', ''ba'', ''aa'']"
        and sigs = "[''ab'', ''ba'', ''bb'']" and w = toy_world and publicKey = "[1]"
        and contentHashes = "[''ab'', ''ba'']"]
    by (simp add: batch_att_def toy_verifySignature nth_opt_def All_less_Suc
        numeral_3_eq_3)
  ultimately show ?thesis by simp
qed

text \<open>
  Claim C3. For every attestation in single mode, that is one that carries a \<open>msg\<close> and
  a \<open>signature\<close>, both not empty, and is not in batch mode, and every content digest set,
  the attestation is judged valid if and only if \<open>msg\<close> is a member of the content
  digest set and the signature verifies against the key. In particular a \<open>msg\<close> that is
  not a content digest is rejected also when its signature verifies.
\<close>

theorem verifyAttestation_single:
  assumes "msg a = Some m" and "m \<noteq> []" and "signature a = Some sg" and "sg \<noteq> []"
    and "\<not> batch_mode a"
  shows "verifyAttestation w a publicKey contentHashes
           = Inr (m \<in> set contentHashes
                  \<and> verifySignature w m (Some sg) publicKey (hashAlgo a) = Inr True)
         \<and> (m \<notin> set contentHashes \<longrightarrow> verifyAttestation w a publicKey contentHashes = Inr False)"
  using assms
  by (auto simp: verifyAttestation_def single_mode_def truthy_str_def verifySignature_Inr)

text \<open>
  The digest \<open>ba\<close> with its own valid signature is rejected when the content digest is
  \<open>ab\<close>, and accepted when the content digest is \<open>ba\<close>.
\<close>

theorem verifyAttestation_single_witness:
  "verifySignature toy_world ''ba'' (Some ''ba'') [1] ''sha256'' = Inr True
   \<and> verifyAttestation toy_world (att (Some ''https://a'') ''ba'' ''ba'') [1] [''ab''] = Inr False
   \<and> verifyAttestation toy_world (att (Some ''https://a'') ''ba'' ''ba'') [1] [''ba''] = Inr True"
proof -
  let ?a = "att (Some ''https://a'') ''ba'' ''ba''"
  have v: "verifySignature toy_world ''ba'' (Some ''ba'') [1] ''sha256'' = Inr True"
    by (simp add: toy_verifySignature)
  have "verifyAttestation toy_world ?a [1] [''ab''] = Inr False"
    using verifyAttestation_single [where a = ?a and m = "''ba''" and sg = "''ba''"
        and w = toy_world and publicKey = "[1]" and contentHashes = "[''ab'']"]
    by (simp add: att_def batch_mode_def)
  moreover have "verifyAttestation toy_world ?a [1] [''ba''] = Inr True"
    using verifyAttestation_single [where a = ?a and m = "''ba''" and sg = "''ba''"
        and w = toy_world and publicKey = "[1]" and contentHashes = "[''ba'']"] v
    by (simp add: att_def batch_mode_def)
  ultimately show ?thesis using v by simp
qed

section \<open>The verification pass\<close>

text \<open>
  Claim C1, as amended. For every response, list of attestations, allow-list and
  threshold \<open>T\<close>: when the content can be hashed and no attestation aborts the pass,
  attestation verification returns, and it succeeds if and only if the number of
  attestations judged valid is at least \<open>T\<close>. A client constructed without a threshold
  has \<open>T = 1\<close>.
\<close>

theorem verifyAttestations_threshold:
  assumes "hashContent w (nullish (result r) (error r)) = Inr hs"
    and "list_all (\<lambda>x. \<not> aborts w (identities c) hs x) (enumerate 0 (attestations r))"
  shows "snd (verifyAttestations w c r)
           = Inr (minimumRequiredAttestations c
                    \<le> int (valid_count w (identities c) hs (attestations r)))
         \<and> minimumRequiredAttestations (StatelessRpcClient url ids None prover) = 1"
proof -
  from loop_no_abort [OF assms(2), of "[]"] obtain tr v where
    l: "attestation_loop w (identities c) hs 0 (attestations r) [] = (tr, Inr v)"
    and n: "length v = valid_count w (identities c) hs (attestations r)"
    by (auto simp: valid_count_def)
  have "snd (verifyAttestations w c r) = Inr (minimumRequiredAttestations c \<le> int (length v))"
    using assms(1) l
    by (simp add: verifyAttestations_def Let_def io_bind_def io_lift_def io_return_def)
  then show ?thesis using n by (simp add: StatelessRpcClient_def)
qed

text \<open>
  The specification's scenario: allow-list \<open>[A, B, C]\<close>, attestations valid for \<open>A\<close>
  and \<open>B\<close> and one with a wrong signature for \<open>C\<close>. Two are judged valid; the pass
  succeeds with threshold 2 and fails with threshold 3.
\<close>

theorem verifyAttestations_threshold_witness:
  "valid_count toy_world abc [''ab''] three = 2
   \<and> snd (verifyAttestations toy_world (StatelessRpcClient ''https://rpc'' abc (Some 2) None)
        \<lparr>result = Str ''ab'', error = Undefined, attestations = three\<rparr>) = Inr True
   \<and> snd (verifyAttestations toy_world (StatelessRpcClient ''https://rpc'' abc (Some 3) None)
        \<lparr>result = Str ''ab'', error = Undefined, attestations = three\<rparr>) = Inr False
   \<and> minimumRequiredAttestations (StatelessRpcClient ''https://rpc'' abc None None) = 1"
proof -
  let ?r = "\<lparr>result = Str ''ab'', error = Undefined, attestations = three\<rparr>"
  have h: "hashContent toy_world (nullish (result ?r) (error ?r)) = Inr [''ab'']"
    by (simp add: content_defs toy_defs)
  have b: "snd (loop_body toy_world abc [''ab''] 0 (att (Some ''https://a'') ''ab'' ''ab''))
             = Inr (Some (att (Some ''https://a'') ''ab'' ''ab''))"
      "snd (loop_body toy_world abc [''ab''] (Suc 0) (att (Some ''https://b'') ''ab'' ''ab''))
             = Inr (Some (att (Some ''https://b'') ''ab'' ''ab''))"
      "snd (loop_body toy_world abc [''ab''] (Suc (Suc 0)) (att (Some ''https://c'') ''ab'' ''ba'')) = Inr None"
    by (simp_all add: run_defs toy_defs abc_def)
  have n: "list_all (\<lambda>x. \<not> aborts toy_world abc [''ab''] x) (enumerate 0 three)"
    using b by (simp add: three_def aborts_def)
  have v: "valid_count toy_world abc [''ab''] three = 2"
    using b by (simp add: three_def valid_count_def judged_valid_def)
  have i2: "identities (StatelessRpcClient ''https://rpc'' abc (Some 2) None) = abc"
    and i3: "identities (StatelessRpcClient ''https://rpc'' abc (Some 3) None) = abc"
    by (simp_all add: StatelessRpcClient_def)
  from verifyAttestations_threshold [of toy_world ?r "[''ab'']"
      "StatelessRpcClient ''https://rpc'' abc (Some 2) None" "''https://rpc''" abc None]
    verifyAttestations_threshold [of toy_world ?r "[''ab'']"
      "StatelessRpcClient ''https://rpc'' abc (Some 3) None" "''https://rpc''" abc None]
    h n v i2 i3
  show ?thesis by (simp add: StatelessRpcClient_def)
qed

text \<open>
  The claim as it was stated fails when the pass is aborted. With threshold 1, a valid
  attestation of \<open>https://a\<close> followed by one of \<open>https://r\<close>, whose key is an RSA key:
  one attestation is judged valid, which is at least the threshold, and yet verification
  does not succeed; it ends in the error of the key type, after the first attestation
  was checked and pushed.
\<close>

theorem verifyAttestations_abort_counterexample:
  "hashContent toy_world (Str ''ab'') = Inr [''ab'']
   \<and> valid_count toy_world [''https://a'', ''https://r''] [''ab''] valid_then_rsa = 1
   \<and> minimumRequiredAttestations (StatelessRpcClient ''https://rpc'' [''https://a'', ''https://r''] None None) = 1
   \<and> verifyAttestations toy_world (StatelessRpcClient ''https://rpc'' [''https://a'', ''https://r''] None None)
        \<lparr>result = Str ''ab'', error = Undefined, attestations = valid_then_rsa\<rparr>
      = ([KeyFetch ''https://a/.well-known/stateless-key'', KeyParse ''ssh-ed25519 A'',
          AttestationCheck 0,
          KeyFetch ''https://r/.well-known/stateless-key'', KeyParse ''ssh-rsa R''],
         Inl NotEd25519Key)"
proof -
  have a: "loop_body toy_world [''https://a'', ''https://r''] [''ab''] 0 (att (Some ''https://a'') ''ab'' ''ab'')
      = ([KeyFetch ''https://a/.well-known/stateless-key'', KeyParse ''ssh-ed25519 A'',
       AttestationCheck 0], Inr (Some (att (Some ''https://a'') ''ab'' ''ab'')))"
    by (rule toy_valid_a) simp
  have r: "loop_body toy_world [''https://a'', ''https://r''] [''ab''] (Suc 0) (att (Some ''https://r'') ''ab'' ''ab'')
      = ([KeyFetch ''https://r/.well-known/stateless-key'', KeyParse ''ssh-rsa R''], Inl NotEd25519Key)"
    by (rule toy_rsa) simp
  have h: "hashContent toy_world (Str ''ab'') = Inr [''ab'']"
    by (simp add: content_defs toy_defs)
  have v: "valid_count toy_world [''https://a'', ''https://r''] [''ab''] valid_then_rsa = 1"
    using a r by (simp add: valid_then_rsa_def valid_count_def judged_valid_def)
  show ?thesis
    using a r h v
    by (simp add: verifyAttestations_def StatelessRpcClient_def valid_then_rsa_def nullish_def
        io_bind_def io_lift_def io_return_def)
qed

text \<open>
  Claim C4. An attestation whose identity, after the positional assignment, is not in
  the allow-list is skipped: its turn of the loop does nothing observable (no key is
  fetched or parsed, \<open>verifyAttestation\<close> is not called), it is not judged valid, and the
  pass over the whole list is the pass over the attestations before it followed by the
  pass over those after it, the list of valid attestations handed on unchanged. The
  attestation's messages and signatures are arbitrary.
\<close>

theorem unlisted_identity_skipped:
  assumes "\<not> includes_identity ids (identity (assign_identity ids (length xs) a))"
  shows "loop_body w ids hs (length xs) a = ([], Inr None)
         \<and> \<not> judged_valid w ids hs (length xs, a)
         \<and> attestation_loop w ids hs 0 (xs @ a # ys) []
             = io_bind (attestation_loop w ids hs 0 xs [])
                 (\<lambda>valid. attestation_loop w ids hs (Suc (length xs)) ys valid)"
proof -
  have b: "loop_body w ids hs (length xs) a = ([], Inr None)"
    using assms by (rule loop_body_skip)
  have "attestation_loop w ids hs (length xs) (a # ys) valid
        = attestation_loop w ids hs (Suc (length xs)) ys valid" for valid
    using b by (simp add: io_bind_def split: prod.splits)
  then show ?thesis
    using b loop_append [of w ids hs 0 xs "a # ys" "[]"] by (simp add: judged_valid_def)
qed

text \<open>
  An attestation of \<open>https://x\<close> with a signature that verifies, before a valid one of
  the allow-listed \<open>https://a\<close>: only the second is fetched, checked and kept. An
  attestation without identity at position 1 of a one-element allow-list is skipped too.
\<close>

theorem unlisted_identity_skipped_witness:
  "attestation_loop toy_world [''https://a''] [''ab''] 0
     [att (Some ''https://x'') ''ab'' ''ab'', att (Some ''https://a'') ''ab'' ''ab''] []
   = ([KeyFetch ''https://a/.well-known/stateless-key'', KeyParse ''ssh-ed25519 A'',
       AttestationCheck 1],
      Inr [att (Some ''https://a'') ''ab'' ''ab''])
   \<and> loop_body toy_world [''https://a''] [''ab''] 1 (att None ''ab'' ''ab'') = ([], Inr None)"
proof -
  have x: "\<not> includes_identity [''https://a'']
      (identity (assign_identity [''https://a''] (length ([]::attestation list)) (att (Some ''https://x'') ''ab'' ''ab'')))"
    by (simp add: includes_identity_def assign_identity_def truthy_str_def att_def)
  have n: "\<not> includes_identity [''https://a'']
      (identity (assign_identity [''https://a''] (length [att (Some ''https://a'') ''ab'' ''ab'']) (att None ''ab'' ''ab'')))"
    by (simp add: includes_identity_def assign_identity_def truthy_str_def att_def nth_opt_def)
  from unlisted_identity_skipped [OF x, of toy_world "[''ab'']" "[att (Some ''https://a'') ''ab'' ''ab'']"]
    unlisted_identity_skipped [OF n, of toy_world "[''ab'']" "[]"]
    toy_valid_a [of "[''https://a'']" "Suc 0"]
  show ?thesis by (simp add: io_bind_def io_return_def)
qed

text \<open>
  Claim C9. An attestation at position \<open>i\<close> whose identity is absent (or empty), with
  \<open>i\<close> a position of the allow-list, is assigned the identity at position \<open>i\<close> of the
  allow-list before the membership check, which it then passes; its turn of the loop,
  and so the whole pass, is exactly that of the same attestation carrying this identity.
\<close>

theorem positional_identity:
  assumes "\<not> truthy_str (identity a)" and "length xs < length ids"
  shows "identity (assign_identity ids (length xs) a) = Some (ids ! length xs)
         \<and> includes_identity ids (identity (assign_identity ids (length xs) a))
         \<and> loop_body w ids hs (length xs) a
             = loop_body w ids hs (length xs) (a\<lparr>identity := Some (ids ! length xs)\<rparr>)
         \<and> attestation_loop w ids hs 0 (xs @ a # ys) []
             = attestation_loop w ids hs 0 (xs @ a\<lparr>identity := Some (ids ! length xs)\<rparr> # ys) []"
proof -
  have e: "assign_identity ids (length xs) a = a\<lparr>identity := Some (ids ! length xs)\<rparr>"
    using assms by (simp add: assign_identity_def nth_opt_def)
  have e': "assign_identity ids (length xs) (a\<lparr>identity := Some (ids ! length xs)\<rparr>)
            = a\<lparr>identity := Some (ids ! length xs)\<rparr>"
    using assms by (simp add: assign_identity_def nth_opt_def)
  have b: "loop_body w ids hs (length xs) a
           = loop_body w ids hs (length xs) (a\<lparr>identity := Some (ids ! length xs)\<rparr>)"
    unfolding loop_body_def e e' ..
  have f: "attestation_loop w ids hs (length xs) (a # ys)
           = attestation_loop w ids hs (length xs) (a\<lparr>identity := Some (ids ! length xs)\<rparr> # ys)"
    by (rule ext) (simp add: b)
  have "attestation_loop w ids hs 0 (xs @ a # ys) []
             = attestation_loop w ids hs 0 (xs @ a\<lparr>identity := Some (ids ! length xs)\<rparr> # ys) []"
    by (simp only: loop_append add_0 f)
  then show ?thesis
    using e b assms(2) by (simp add: includes_identity_def)
qed

text \<open>
  With the allow-list \<open>[https://b, https://a]\<close>, the attestation without identity at
  position 1 is checked against the key of \<open>https://a\<close> and kept with that identity.
\<close>

theorem positional_identity_witness:
  "attestation_loop toy_world [''https://b'', ''https://a''] [''ab''] 0
     [att None ''ab'' ''ba'', att None ''ab'' ''ab''] []
   = attestation_loop toy_world [''https://b'', ''https://a''] [''ab''] 0
     [att None ''ab'' ''ba'', att (Some ''https://a'') ''ab'' ''ab''] []
   \<and> loop_body toy_world [''https://b'', ''https://a''] [''ab''] 1 (att None ''ab'' ''ab'')
     = ([KeyFetch ''https://a/.well-known/stateless-key'', KeyParse ''ssh-ed25519 A'',
         AttestationCheck 1], Inr (Some (att (Some ''https://a'') ''ab'' ''ab'')))"
proof -
  have t: "\<not> truthy_str (identity (att None ''ab'' ''ab''))"
    by (simp add: truthy_str_def att_def)
  have l: "length [att None ''ab'' ''ba''] < length [''https://b'', ''https://a'']"
    by simp
  have u: "(att None ''ab'' ''ab'')\<lparr>identity := Some ''https://a''\<rparr> = att (Some ''https://a'') ''ab'' ''ab''"
    by (simp add: att_def)
  from positional_identity [OF t l, of toy_world "[''ab'']" "[]"] u
    toy_valid_a [of "[''https://b'', ''https://a'']" "Suc 0"]
  show ?thesis by simp
qed

text \<open>
  Claim C5, as amended. Let the attestation at some position of the response carry an
  allow-listed identity. If the key of that identity cannot be fetched (the lookup is
  rejected, answers a status other than 200, or its body cannot be read), the pass is
  the pass over the attestations before it, the one failed key fetch, and the pass over
  the attestations after it with the same list of valid attestations: only this
  attestation is skipped. If the key is fetched and parses, but is not an ed25519 key,
  this turn of the loop throws, the pass ends in an error (that of the key type, unless
  an earlier attestation aborted it already), and so does \<open>verifyAttestations\<close>. If the
  key is fetched and does not parse, the parser's error ends the pass in the same way:
  \<^verbatim>\<open>sshpk.parseKey\<close> stands outside the \<^verbatim>\<open>try\<close>.
\<close>

theorem key_failure_local_key_type_fatal:
  assumes "attestations r = xs @ a # ys"
    and "includes_identity (identities c) (identity (assign_identity (identities c) (length xs) a))"
    and "ident = the (identity (assign_identity (identities c) (length xs) a))"
  shows "(\<forall>e. snd (publicKeyFromIdentity w ident) = Inl e \<longrightarrow>
            attestation_loop w (identities c) hs 0 (attestations r) []
            = io_bind (attestation_loop w (identities c) hs 0 xs []) (\<lambda>valid.
              io_bind ([KeyFetch (ident @ ''/.well-known/stateless-key'')], Inr ()) (\<lambda>u.
                attestation_loop w (identities c) hs (Suc (length xs)) ys valid)))
         \<and> (\<forall>k key. snd (publicKeyFromIdentity w ident) = Inr k \<and> sshpk_parseKey w k = Inr key
               \<and> key_type key \<noteq> ''ed25519'' \<longrightarrow>
            snd (loop_body w (identities c) hs (length xs) a) = Inl NotEd25519Key
            \<and> snd (attestation_loop w (identities c) hs 0 (attestations r) [])
                = (case snd (attestation_loop w (identities c) hs 0 xs []) of
                     Inl e \<Rightarrow> Inl e
                   | Inr valid \<Rightarrow> Inl NotEd25519Key)
            \<and> (\<exists>e. snd (verifyAttestations w c r) = Inl e))
         \<and> (\<forall>k e'. snd (publicKeyFromIdentity w ident) = Inr k \<and> sshpk_parseKey w k = Inl e' \<longrightarrow>
            snd (loop_body w (identities c) hs (length xs) a) = Inl e'
            \<and> snd (attestation_loop w (identities c) hs 0 (attestations r) [])
                = (case snd (attestation_loop w (identities c) hs 0 xs []) of
                     Inl e \<Rightarrow> Inl e
                   | Inr valid \<Rightarrow> Inl e')
            \<and> (\<exists>e. snd (verifyAttestations w c r) = Inl e))"
proof (intro conjI allI impI)
  fix e
  assume f: "snd (publicKeyFromIdentity w ident) = Inl e"
  have b: "loop_body w (identities c) hs (length xs) a
           = ([KeyFetch (ident @ ''/.well-known/stateless-key'')], Inr None)"
    using loop_body_fetch_failed [OF assms(2), of w e hs] f assms(3) by simp
  have "attestation_loop w (identities c) hs (length xs) (a # ys)
        = (\<lambda>valid. io_bind ([KeyFetch (ident @ ''/.well-known/stateless-key'')], Inr ()) (\<lambda>u.
             attestation_loop w (identities c) hs (Suc (length xs)) ys valid))"
    by (rule ext) (simp add: b io_bind_def)
  then show "attestation_loop w (identities c) hs 0 (attestations r) []
            = io_bind (attestation_loop w (identities c) hs 0 xs []) (\<lambda>valid.
              io_bind ([KeyFetch (ident @ ''/.well-known/stateless-key'')], Inr ()) (\<lambda>u.
                attestation_loop w (identities c) hs (Suc (length xs)) ys valid))"
    by (simp only: assms(1) loop_append add_0)
next
  fix k key
  assume p: "snd (publicKeyFromIdentity w ident) = Inr k \<and> sshpk_parseKey w k = Inr key
               \<and> key_type key \<noteq> ''ed25519''"
  have b: "snd (loop_body w (identities c) hs' (length xs) a) = Inl NotEd25519Key" for hs'
    using loop_body_not_ed25519 [OF assms(2), of w k key hs'] p assms(3) by simp
  show "snd (loop_body w (identities c) hs (length xs) a) = Inl NotEd25519Key"
    by (rule b)
  from abort_at_position [OF assms(1) b, of hs]
  show "snd (attestation_loop w (identities c) hs 0 (attestations r) [])
                = (case snd (attestation_loop w (identities c) hs 0 xs []) of
                     Inl e \<Rightarrow> Inl e
                   | Inr valid \<Rightarrow> Inl NotEd25519Key)"
    and "\<exists>e. snd (verifyAttestations w c r) = Inl e"
    by simp_all
next
  fix k e'
  assume p: "snd (publicKeyFromIdentity w ident) = Inr k \<and> sshpk_parseKey w k = Inl e'"
  have b: "snd (loop_body w (identities c) hs' (length xs) a) = Inl e'" for hs'
    using loop_body_parse_failed [OF assms(2), of w k e' hs'] p assms(3) by simp
  show "snd (loop_body w (identities c) hs (length xs) a) = Inl e'"
    by (rule b)
  from abort_at_position [OF assms(1) b, of hs]
  show "snd (attestation_loop w (identities c) hs 0 (attestations r) [])
                = (case snd (attestation_loop w (identities c) hs 0 xs []) of
                     Inl e \<Rightarrow> Inl e
                   | Inr valid \<Rightarrow> Inl e')"
    and "\<exists>e. snd (verifyAttestations w c r) = Inl e"
    by simp_all
qed

text \<open>
  The key of \<open>https://down\<close> cannot be fetched (404): the attestation is skipped and the
  valid attestation after it meets the threshold 1. The key of \<open>https://r\<close> is an RSA key,
  the key of \<open>https://j\<close> does not parse: the pass ends in the error.
\<close>

theorem key_failure_local_key_type_fatal_witness:
  "verifyAttestations toy_world
       (StatelessRpcClient ''https://rpc'' [''https://down'', ''https://a''] None None)
       \<lparr>result = Str ''ab'', error = Undefined, attestations = down_then_valid\<rparr>
     = ([KeyFetch ''https://down/.well-known/stateless-key'',
         KeyFetch ''https://a/.well-known/stateless-key'', KeyParse ''ssh-ed25519 A'',
         AttestationCheck 1], Inr True)
   \<and> snd (attestation_loop toy_world [''https://a'', ''https://r''] [''ab''] 0 valid_then_rsa [])
     = Inl NotEd25519Key
   \<and> snd (attestation_loop toy_world [''https://a'', ''https://j''] [''ab''] 0 valid_then_junk [])
     = Inl (LibraryError ''KeyParseError'')"
proof -
  let ?junk = "att (Some ''https://j'') ''ab'' ''ab''"
  let ?c'' = "StatelessRpcClient ''https://rpc'' [''https://a'', ''https://j''] None None"
  let ?r'' = "\<lparr>result = Str ''ab'', error = Undefined, attestations = valid_then_junk\<rparr>"
  let ?down = "att (Some ''https://down'') ''ab'' ''ab''"
  let ?a = "att (Some ''https://a'') ''ab'' ''ab''"
  let ?rsa = "att (Some ''https://r'') ''ab'' ''ab''"
  let ?c = "StatelessRpcClient ''https://rpc'' [''https://down'', ''https://a''] None None"
  let ?r = "\<lparr>result = Str ''ab'', error = Undefined, attestations = down_then_valid\<rparr>"
  let ?c' = "StatelessRpcClient ''https://rpc'' [''https://a'', ''https://r''] None None"
  let ?r' = "\<lparr>result = Str ''ab'', error = Undefined, attestations = valid_then_rsa\<rparr>"
  have h: "hashContent toy_world (Str ''ab'') = Inr [''ab'']"
    by (simp add: content_defs toy_defs)
  have ic: "identities ?c = [''https://down'', ''https://a'']"
    and ic': "identities ?c' = [''https://a'', ''https://r'']"
    by (simp_all add: StatelessRpcClient_def)
  \<comment> \<open>the key of the first identity cannot be fetched\<close>
  have a1: "attestations ?r = [] @ ?down # [?a]"
    by (simp add: down_then_valid_def)
  have a2: "includes_identity (identities ?c) (identity (assign_identity (identities ?c) (length ([]::attestation list)) ?down))"
    by (simp add: ic includes_identity_def assign_identity_def truthy_str_def att_def)
  have a3: "''https://down'' = the (identity (assign_identity (identities ?c) (length ([]::attestation list)) ?down))"
    by (simp add: ic assign_identity_def truthy_str_def att_def)
  have d: "snd (publicKeyFromIdentity toy_world ''https://down'')
           = Inl (KeyFetchFailed ''https://down/.well-known/stateless-key'')"
    by (simp add: publicKeyFromIdentity_def Let_def toy_defs)
  from key_failure_local_key_type_fatal [OF a1 a2 a3, of toy_world "[''ab'']"] d
  have "attestation_loop toy_world (identities ?c) [''ab''] 0 (attestations ?r) []
        = io_bind (attestation_loop toy_world (identities ?c) [''ab''] 0 [] []) (\<lambda>valid.
            io_bind ([KeyFetch (''https://down'' @ ''/.well-known/stateless-key'')], Inr ()) (\<lambda>u.
              attestation_loop toy_world (identities ?c) [''ab''] (Suc (length ([]::attestation list))) [?a] valid))"
    by blast
  also have "\<dots> = ([KeyFetch ''https://down/.well-known/stateless-key'',
            KeyFetch ''https://a/.well-known/stateless-key'', KeyParse ''ssh-ed25519 A'',
            AttestationCheck 1], Inr [?a])"
    using toy_valid_a [of "[''https://down'', ''https://a'']" "Suc 0"]
    by (simp add: ic io_bind_def io_return_def)
  finally have one: "verifyAttestations toy_world ?c ?r
     = ([KeyFetch ''https://down/.well-known/stateless-key'',
         KeyFetch ''https://a/.well-known/stateless-key'', KeyParse ''ssh-ed25519 A'',
         AttestationCheck 1], Inr True)"
    using h
    by (simp add: verifyAttestations_def nullish_def io_bind_def io_lift_def io_return_def
        StatelessRpcClient_def)
  \<comment> \<open>the key of the second identity is an RSA key\<close>
  have b1: "attestations ?r' = [?a] @ ?rsa # []"
    by (simp add: valid_then_rsa_def)
  have b2: "includes_identity (identities ?c') (identity (assign_identity (identities ?c') (length [?a]) ?rsa))"
    by (simp add: ic' includes_identity_def assign_identity_def truthy_str_def att_def)
  have b3: "''https://r'' = the (identity (assign_identity (identities ?c') (length [?a]) ?rsa))"
    by (simp add: ic' assign_identity_def truthy_str_def att_def)
  have p: "snd (publicKeyFromIdentity toy_world ''https://r'') = Inr ''ssh-rsa R''"
    by (simp add: publicKeyFromIdentity_def Let_def toy_defs)
  have k: "sshpk_parseKey toy_world ''ssh-rsa R'' = Inr \<lparr>key_type = ''rsa'', part_A_data = []\<rparr>"
    by (simp add: toy_defs)
  have kt: "key_type \<lparr>key_type = ''rsa'', part_A_data = []\<rparr> \<noteq> ''ed25519''"
    by simp
  have a: "snd (attestation_loop toy_world (identities ?c') [''ab''] 0 [?a] []) = Inr [?a]"
    using toy_valid_a [of "[''https://a'', ''https://r'']" 0]
    by (simp add: ic' io_bind_def io_return_def)
  from key_failure_local_key_type_fatal [OF b1 b2 b3, of toy_world "[''ab'']"] p k kt
  have "snd (attestation_loop toy_world (identities ?c') [''ab''] 0 (attestations ?r') [])
        = (case snd (attestation_loop toy_world (identities ?c') [''ab''] 0 [?a] []) of
             Inl e \<Rightarrow> Inl e | Inr valid \<Rightarrow> Inl NotEd25519Key)"
    by blast
  then have two: "snd (attestation_loop toy_world [''https://a'', ''https://r''] [''ab''] 0 valid_then_rsa [])
     = Inl NotEd25519Key"
    using a by (simp add: ic')
  \<comment> \<open>the key of the second identity does not parse\<close>
  have ic'': "identities ?c'' = [''https://a'', ''https://j'']"
    by (simp add: StatelessRpcClient_def)
  have c1: "attestations ?r'' = [?a] @ ?junk # []"
    by (simp add: valid_then_junk_def)
  have c2: "includes_identity (identities ?c'') (identity (assign_identity (identities ?c'') (length [?a]) ?junk))"
    by (simp add: ic'' includes_identity_def assign_identity_def truthy_str_def att_def)
  have c3: "''https://j'' = the (identity (assign_identity (identities ?c'') (length [?a]) ?junk))"
    by (simp add: ic'' assign_identity_def truthy_str_def att_def)
  have pj: "snd (publicKeyFromIdentity toy_world ''https://j'') = Inr ''junk''"
    by (simp add: publicKeyFromIdentity_def Let_def toy_defs)
  have kj: "sshpk_parseKey toy_world ''junk'' = Inl (LibraryError ''KeyParseError'')"
    by (simp add: toy_defs)
  have aj: "snd (attestation_loop toy_world (identities ?c'') [''ab''] 0 [?a] []) = Inr [?a]"
    using toy_valid_a [of "[''https://a'', ''https://j'']" 0]
    by (simp add: ic'' io_bind_def io_return_def)
  from key_failure_local_key_type_fatal [OF c1 c2 c3, of toy_world "[''ab'']"] pj kj
  have "snd (attestation_loop toy_world (identities ?c'') [''ab''] 0 (attestations ?r'') [])
        = (case snd (attestation_loop toy_world (identities ?c'') [''ab''] 0 [?a] []) of
             Inl e \<Rightarrow> Inl e | Inr valid \<Rightarrow> Inl (LibraryError ''KeyParseError''))"
    by blast
  then have three: "snd (attestation_loop toy_world [''https://a'', ''https://j''] [''ab''] 0 valid_then_junk [])
     = Inl (LibraryError ''KeyParseError'')"
    using aj by (simp add: ic'')
  show ?thesis using one two three by simp
qed

text \<open>
  The claim as it was stated, with the specification's reading of a failure to resolve
  (the fetched material does not parse as a key), fails. With threshold 1, a valid
  attestation of \<open>https://a\<close> is followed by one of the allow-listed \<open>https://j\<close>, whose
  key is fetched and is no key: the second attestation is not skipped, the pass ends in
  the parser's error. The first attestation alone meets the threshold.
\<close>

theorem unparseable_key_aborts_counterexample:
  "snd (publicKeyFromIdentity toy_world ''https://j'') = Inr ''junk''
   \<and> sshpk_parseKey toy_world ''junk'' = Inl (LibraryError ''KeyParseError'')
   \<and> verifyAttestations toy_world
         (StatelessRpcClient ''https://rpc'' [''https://a'', ''https://j''] None None)
         \<lparr>result = Str ''ab'', error = Undefined, attestations = valid_then_junk\<rparr>
       = ([KeyFetch ''https://a/.well-known/stateless-key'', KeyParse ''ssh-ed25519 A'',
           AttestationCheck 0,
           KeyFetch ''https://j/.well-known/stateless-key'', KeyParse ''junk''],
          Inl (LibraryError ''KeyParseError''))
   \<and> snd (verifyAttestations toy_world
         (StatelessRpcClient ''https://rpc'' [''https://a'', ''https://j''] None None)
         \<lparr>result = Str ''ab'', error = Undefined,
          attestations = [att (Some ''https://a'') ''ab'' ''ab'']\<rparr>)
       = Inr True"
proof -
  have a: "loop_body toy_world [''https://a'', ''https://j''] [''ab''] 0
             (att (Some ''https://a'') ''ab'' ''ab'')
      = ([KeyFetch ''https://a/.well-known/stateless-key'', KeyParse ''ssh-ed25519 A'',
       AttestationCheck 0], Inr (Some (att (Some ''https://a'') ''ab'' ''ab'')))"
    by (rule toy_valid_a) simp
  have j: "loop_body toy_world [''https://a'', ''https://j''] [''ab''] (Suc 0)
             (att (Some ''https://j'') ''ab'' ''ab'')
      = ([KeyFetch ''https://j/.well-known/stateless-key'', KeyParse ''junk''],
         Inl (LibraryError ''KeyParseError''))"
    by (rule toy_junk) simp
  have h: "hashContent toy_world (Str ''ab'') = Inr [''ab'']"
    by (simp add: content_defs toy_defs)
  have p: "snd (publicKeyFromIdentity toy_world ''https://j'') = Inr ''junk''"
    by (simp add: publicKeyFromIdentity_def Let_def toy_defs)
  have k: "sshpk_parseKey toy_world ''junk'' = Inl (LibraryError ''KeyParseError'')"
    by (simp add: toy_defs)
  show ?thesis
    using a j h p k
    by (simp add: verifyAttestations_def StatelessRpcClient_def valid_then_junk_def nullish_def
        io_bind_def io_lift_def io_return_def)
qed

section \<open>The request\<close>

text \<open>
  Claim C7. \<open>verifyStatelessProof\<close> is called in a \<open>request\<close> if and only if a prover URL
  is configured (set and not empty) and the method is \<open>eth_call\<close>. When it is called, the
  request is the proof verification followed by the request of the same client without
  a prover: the proof comes first and does nothing but POST to the prover URL; if it
  fails, the request ends there with the proof's error, having done nothing else (no
  POST of the main request, no key fetched, no attestation checked). When no prover URL
  is configured, the first action of the request is the POST to the main endpoint,
  everything after it belongs to attestation verification, and for a single response
  the outcome is what attestation verification over that response lets through.
\<close>

theorem stateless_proof_gate:
  "(StatelessProofCall \<in> set (fst (request w c method params))
      \<longleftrightarrow> truthy_str (proverUrl c) \<and> method = ''eth_call'')
   \<and> (truthy_str (proverUrl c) \<and> method = ''eth_call'' \<longrightarrow>
        request w c method params
          = io_bind (verifyStatelessProof w c params)
              (\<lambda>u. request w (c\<lparr>proverUrl := None\<rparr>) method params)
        \<and> list_all (prover_event c) (fst (verifyStatelessProof w c params))
        \<and> (\<forall>e. snd (verifyStatelessProof w c params) = Inl e \<longrightarrow>
              request w c method params = (fst (verifyStatelessProof w c params), Inl e)))
   \<and> (\<not> truthy_str (proverUrl c) \<longrightarrow>
        (\<exists>rest. fst (request w c method params) = HttpPost (rpcUrl c) method params # rest
                \<and> list_all attestation_event rest)
        \<and> (\<forall>r. snd (sendJsonRpcRequest w (rpcUrl c) method params) = Inr (Single r) \<longrightarrow>
              request w c method params
              = (HttpPost (rpcUrl c) method params # fst (verifyAttestations w c r),
                 gated_result c r (snd (verifyAttestations w c r)))))"
proof (intro conjI impI allI)
  show "StatelessProofCall \<in> set (fst (request w c method params))
      \<longleftrightarrow> truthy_str (proverUrl c) \<and> method = ''eth_call''"
  proof (cases "light_client_call c method")
    case True
    obtain rest where "fst (verifyStatelessProof w c params) = StatelessProofCall # rest"
      using verifyStatelessProof_first by blast
    then have "StatelessProofCall \<in> set (fst (request w c method params))"
      unfolding request_light [OF True]
      by (cases "verifyStatelessProof w c params")
        (auto simp: io_bind_def split: sum.splits prod.splits)
    then show ?thesis using True by (simp add: light_client_call_def)
  next
    case False
    from request_main_first [OF False, of w params] obtain rest where
      "fst (request w c method params) = HttpPost (rpcUrl c) method params # rest"
      and "list_all attestation_event rest"
      by blast
    then have "StatelessProofCall \<notin> set (fst (request w c method params))"
      by (auto simp: list_all_iff attestation_event_def)
    then show ?thesis using False by (simp add: light_client_call_def)
  qed
next
  assume a: "truthy_str (proverUrl c) \<and> method = ''eth_call''"
  then have l: "light_client_call c method" by (simp add: light_client_call_def)
  show "request w c method params
          = io_bind (verifyStatelessProof w c params)
              (\<lambda>u. request w (c\<lparr>proverUrl := None\<rparr>) method params)"
    by (rule request_light [OF l])
  show "list_all (prover_event c) (fst (verifyStatelessProof w c params))"
    by (rule verifyStatelessProof_events)
  fix e
  assume "snd (verifyStatelessProof w c params) = Inl e"
  then show "request w c method params = (fst (verifyStatelessProof w c params), Inl e)"
    unfolding request_light [OF l]
    by (cases "verifyStatelessProof w c params") (simp add: io_bind_def)
next
  assume a: "\<not> truthy_str (proverUrl c)"
  then have l: "\<not> light_client_call c method" by (simp add: light_client_call_def)
  show "\<exists>rest. fst (request w c method params) = HttpPost (rpcUrl c) method params # rest
                \<and> list_all attestation_event rest"
    by (rule request_main_first [OF l])
  fix r
  assume "snd (sendJsonRpcRequest w (rpcUrl c) method params) = Inr (Single r)"
  from request_single [OF this l]
  show "request w c method params
              = (HttpPost (rpcUrl c) method params # fst (verifyAttestations w c r),
                 gated_result c r (snd (verifyAttestations w c r)))" .
qed

text \<open>
  In the small world, for \<open>eth_call\<close>: with the prover whose account proof omits the
  address, the call fails with \<open>AccountNotFound\<close> after the four prover calls and before
  anything else; with the good prover the main request and the attestation check follow
  the four prover calls; without a prover only the main request and the attestation
  check happen.
\<close>

theorem stateless_proof_gate_witness:
  "request toy_world (with_prover ''https://omit'') ''eth_call'' call_params
     = ([StatelessProofCall,
         HttpPost ''https://omit'' ''eth_blockNumber'' [],
         HttpPost ''https://omit'' ''eth_getBlockByNumber'' [Str ''0x1'', Bool False],
         HttpPost ''https://omit'' ''eth_createAccessList'' [Obj [(''to'', Str ''0xab'')]],
         HttpPost ''https://omit'' ''eth_getProof'' [Str ''0xab'', Arr [Str ''0xba''], Str ''0x1'']],
        Inl AccountNotFound)
   \<and> request toy_world (with_prover ''https://good'') ''eth_call'' call_params
     = ([StatelessProofCall,
         HttpPost ''https://good'' ''eth_blockNumber'' [],
         HttpPost ''https://good'' ''eth_getBlockByNumber'' [Str ''0x1'', Bool False],
         HttpPost ''https://good'' ''eth_createAccessList'' [Obj [(''to'', Str ''0xab'')]],
         HttpPost ''https://good'' ''eth_getProof'' [Str ''0xab'', Arr [Str ''0xba''], Str ''0x1''],
         HttpPost ''https://rpc'' ''eth_call'' call_params,
         KeyFetch ''https://a/.well-known/stateless-key'', KeyParse ''ssh-ed25519 A'',
         AttestationCheck 0],
        Inr (Str ''ab''))
   \<and> request toy_world (only_a None) ''eth_call'' call_params
     = ([HttpPost ''https://rpc'' ''eth_call'' call_params,
         KeyFetch ''https://a/.well-known/stateless-key'', KeyParse ''ssh-ed25519 A'',
         AttestationCheck 0],
        Inr (Str ''ab''))"
proof -
  have t: "truthy_str (proverUrl (with_prover u)) \<and> ''eth_call'' = ''eth_call''" if "u \<noteq> []" for u
    using that by (simp add: with_prover_def StatelessRpcClient_def truthy_str_def)
  have n: "\<not> truthy_str (proverUrl (only_a None))"
    by (simp add: only_a_def StatelessRpcClient_def truthy_str_def)
  have e: "(with_prover u)\<lparr>proverUrl := None\<rparr> = only_a None" for u
    by (simp add: with_prover_def only_a_def StatelessRpcClient_def)
  have r: "rpcUrl (only_a None) = ''https://rpc''" and i: "identities (only_a None) = [''https://a'']"
    and m: "minimumRequiredAttestations (only_a None) = 1"
    by (simp_all add: only_a_def StatelessRpcClient_def)
  have three: "request toy_world (only_a None) ''eth_call'' call_params
     = ([HttpPost ''https://rpc'' ''eth_call'' call_params,
         KeyFetch ''https://a/.well-known/stateless-key'', KeyParse ''ssh-ed25519 A'',
         AttestationCheck 0],
        Inr (Str ''ab''))"
    using stateless_proof_gate [of toy_world "only_a None" "''eth_call''" call_params]
      n toy_main(1) [of call_params] toy_verify_ab [OF i]
    by (simp add: r m gated_result_def attested_ab_def)
  have f: "snd (verifyStatelessProof toy_world (with_prover ''https://omit'') call_params)
           = Inl AccountNotFound"
    by (simp add: toy_proof_omit)
  have o: "''https://omit'' \<noteq> []" and g: "''https://good'' \<noteq> []"
    by simp_all
  have one: "request toy_world (with_prover ''https://omit'') ''eth_call'' call_params
     = (fst (verifyStatelessProof toy_world (with_prover ''https://omit'') call_params),
        Inl AccountNotFound)"
    using stateless_proof_gate [of toy_world "with_prover ''https://omit''" "''eth_call''" call_params]
      t [OF o] f
    by blast
  have two: "request toy_world (with_prover ''https://good'') ''eth_call'' call_params
     = io_bind (verifyStatelessProof toy_world (with_prover ''https://good'') call_params)
         (\<lambda>u. request toy_world (only_a None) ''eth_call'' call_params)"
    using stateless_proof_gate [of toy_world "with_prover ''https://good''" "''eth_call''" call_params]
      t [OF g] e [of "''https://good''"]
    by metis
  show ?thesis
    unfolding one two three toy_proof_omit toy_proof_good
    by (simp add: io_bind_def)
qed




text \<open>
  Claim C10, as amended. The constructor takes a threshold \<open>t \<le> 0\<close> as it is. With such
  a threshold attestation verification succeeds whenever it returns, that is for every
  response on which the pass is not aborted; for a response with an empty attestations
  array whose content can be hashed it succeeds without any key fetch or signature
  check; and a request (outside light-client mode) whose verification returned hands
  the response's error or result to the caller.
\<close>

theorem nonpositive_threshold_accepts:
  assumes "t \<le> 0" and "c = StatelessRpcClient url ids (Some t) prover"
  shows "minimumRequiredAttestations c = t
         \<and> (\<forall>ok. snd (verifyAttestations w c r) = Inr ok \<longrightarrow> ok)
         \<and> (\<forall>hs. attestations r = [] \<and> hashContent w (nullish (result r) (error r)) = Inr hs
               \<longrightarrow> verifyAttestations w c r = ([], Inr True))
         \<and> (\<forall>ok. snd (verifyAttestations w c r) = Inr ok
                \<and> snd (sendJsonRpcRequest w (rpcUrl c) method params) = Inr (Single r)
                \<and> \<not> light_client_call c method
               \<longrightarrow> snd (request w c method params)
                   = (if truthy (error r) then Inl (rpc_error_of (error r)) else Inr (result r)))"
proof (intro conjI allI impI)
  show m: "minimumRequiredAttestations c = t"
    using assms(2) by (simp add: StatelessRpcClient_def)
  show ok: "ok" if "snd (verifyAttestations w c r) = Inr ok" for ok
    using verifyAttestations_verdict [OF that] m assms(1) by auto
  show "verifyAttestations w c r = ([], Inr True)"
    if "attestations r = [] \<and> hashContent w (nullish (result r) (error r)) = Inr hs" for hs
    using that m assms(1)
    by (simp add: verifyAttestations_def io_bind_def io_lift_def io_return_def)
  show "snd (request w c method params)
          = (if truthy (error r) then Inl (rpc_error_of (error r)) else Inr (result r))"
    if "snd (verifyAttestations w c r) = Inr ok
        \<and> snd (sendJsonRpcRequest w (rpcUrl c) method params) = Inr (Single r)
        \<and> \<not> light_client_call c method" for ok
  proof -
    from that ok have "snd (verifyAttestations w c r) = Inr True" by auto
    then show ?thesis
      using that request_single [of w c "method" params r] by (simp add: gated_result_def)
  qed
qed

text \<open>
  With threshold 0 a result without any attestation is returned; with threshold \<open>-1\<close> an
  error without any attestation is raised as the RPC error.
\<close>

theorem nonpositive_threshold_accepts_witness:
  "minimumRequiredAttestations (only_a (Some 0)) = 0
   \<and> request toy_world (only_a (Some 0)) ''eth_chainId'' []
     = ([HttpPost ''https://rpc'' ''eth_chainId'' []], Inr (Str ''ab''))
   \<and> snd (request toy_world (only_a (Some (- 1))) ''eth_bare'' [])
     = Inl (RpcError (Str ''execution reverted'') (Num (- 32000)) Undefined)"
proof -
  let ?r = "\<lparr>result = Str ''ab'', error = Undefined, attestations = []\<rparr>"
  let ?bare = "\<lparr>result = Undefined, error = toy_error, attestations = []\<rparr>"
  have u: "rpcUrl (only_a t) = ''https://rpc''" and l: "\<not> light_client_call (only_a t) m"
    for t m
    by (simp_all add: only_a_def StatelessRpcClient_def light_client_call_def truthy_str_def)
  have h: "hashContent toy_world (nullish (result ?r) (error ?r)) = Inr [''ab'']"
    and hb: "hashContent toy_world (nullish (result ?bare) (error ?bare)) = Inr [''bb'']"
    by (simp_all add: content_defs toy_defs toy_error_def)
  have e: "rpc_error_of toy_error = RpcError (Str ''execution reverted'') (Num (- 32000)) Undefined"
    by (simp add: rpc_error_of_def toy_error_def lookup_key_def)
  have z: "(0::int) \<le> 0" and n: "(- 1::int) \<le> 0" by simp_all
  note zero = nonpositive_threshold_accepts [OF z, of "only_a (Some 0)" "''https://rpc''"
      "[''https://a'']" None toy_world ?r "''eth_chainId''" "[]"]
  note minus = nonpositive_threshold_accepts [OF n, of "only_a (Some (- 1))" "''https://rpc''"
      "[''https://a'']" None toy_world ?bare "''eth_bare''" "[]"]
  have c0: "only_a (Some 0) = StatelessRpcClient ''https://rpc'' [''https://a''] (Some 0) None"
    and c1: "only_a (Some (- 1)) = StatelessRpcClient ''https://rpc'' [''https://a''] (Some (- 1)) None"
    by (simp_all add: only_a_def)
  have v0: "verifyAttestations toy_world (only_a (Some 0)) ?r = ([], Inr True)"
    using zero [OF c0] h by simp
  have v1: "verifyAttestations toy_world (only_a (Some (- 1))) ?bare = ([], Inr True)"
    using minus [OF c1] hb by simp
  have m0: "minimumRequiredAttestations (only_a (Some 0)) = 0"
    using zero [OF c0] by simp
  have s0: "snd (request toy_world (only_a (Some 0)) ''eth_chainId'' []) = Inr (Str ''ab'')"
    using zero [OF c0] v0 toy_main(5) [of "[]"] l [of "Some 0" "''eth_chainId''"]
    by (auto simp: u)
  have f0: "fst (request toy_world (only_a (Some 0)) ''eth_chainId'' [])
            = [HttpPost ''https://rpc'' ''eth_chainId'' []]"
    using request_single [of toy_world "only_a (Some 0)" "''eth_chainId''" "[]" ?r]
      toy_main(5) [of "[]"] l [of "Some 0" "''eth_chainId''"] v0
    by (simp add: u)
  have s1: "snd (request toy_world (only_a (Some (- 1))) ''eth_bare'' [])
     = Inl (RpcError (Str ''execution reverted'') (Num (- 32000)) Undefined)"
    using minus [OF c1] v1 toy_main(3) [of "[]"] l [of "Some (- 1)" "''eth_bare''"] e
    by (auto simp: u toy_error_def)
  show ?thesis using m0 s0 f0 s1 by (simp add: prod_eq_iff)
qed

text \<open>
  The claim as it was stated fails in two ways. With threshold 0 and a response attested
  by the allow-listed \<open>https://r\<close>, whose key is an RSA key, verification does not succeed
  and the response is not released: the request ends in the error of the key type. And
  with threshold 0 and a response attested by \<open>https://a\<close>, the key is fetched and the
  signature is checked all the same.
\<close>

theorem nonpositive_threshold_counterexample:
  "minimumRequiredAttestations only_r = 0
   \<and> request toy_world only_r ''eth_rsa'' []
     = ([HttpPost ''https://rpc'' ''eth_rsa'' [],
         KeyFetch ''https://r/.well-known/stateless-key'', KeyParse ''ssh-rsa R''],
        Inl NotEd25519Key)
   \<and> verifyAttestations toy_world (only_a (Some 0)) attested_ab
     = ([KeyFetch ''https://a/.well-known/stateless-key'', KeyParse ''ssh-ed25519 A'',
         AttestationCheck 0], Inr True)"
proof -
  let ?r = "\<lparr>result = Str ''ab'', error = Undefined,
                     attestations = [att (Some ''https://r'') ''ab'' ''ab'']\<rparr>"
  have m: "minimumRequiredAttestations only_r = 0" and u: "rpcUrl only_r = ''https://rpc''"
    and i: "identities only_r = [''https://r'']"
    and l: "\<not> light_client_call only_r ''eth_rsa''"
    by (simp_all add: only_r_def StatelessRpcClient_def light_client_call_def truthy_str_def)
  have h: "hashContent toy_world (Str ''ab'') = Inr [''ab'']"
    by (simp add: content_defs toy_defs)
  have v: "verifyAttestations toy_world only_r ?r
           = ([KeyFetch ''https://r/.well-known/stateless-key'', KeyParse ''ssh-rsa R''],
              Inl NotEd25519Key)"
    using h toy_rsa [of "[''https://r'']" 0]
    by (simp add: verifyAttestations_def i nullish_def io_bind_def io_lift_def io_return_def)
  have r: "request toy_world only_r ''eth_rsa'' []
     = ([HttpPost ''https://rpc'' ''eth_rsa'' [],
         KeyFetch ''https://r/.well-known/stateless-key'', KeyParse ''ssh-rsa R''],
        Inl NotEd25519Key)"
    using request_single [of toy_world only_r "''eth_rsa''" "[]" ?r] toy_main(4) [of "[]"] l v
    by (simp add: u gated_result_def)
  have a: "verifyAttestations toy_world (only_a (Some 0)) attested_ab
     = ([KeyFetch ''https://a/.well-known/stateless-key'', KeyParse ''ssh-ed25519 A'',
         AttestationCheck 0], Inr True)"
    using toy_verify_ab [of "only_a (Some 0)"]
    by (simp add: only_a_def StatelessRpcClient_def)
  show ?thesis using m r a by simp
qed

end
